theory Spec2Isabelle
  imports Main
begin

section \<open>The persistent store\<close>

text \<open>
  The application keeps its data in five tables of a relational store. A table is the list
  of its rows. Identifiers are UUID strings and timestamps are ISO strings; a nullable
  column is an \<open>option\<close>. Columns that no handler reads are left out of the rows
  (a form's \<open>definition\<close>, a premise's business metadata). A string is a list of
  characters with code points 0..255. The store's row-level security policies are not part
  of the model: the handlers' own checks are.
\<close>

type_synonym uuid = string
type_synonym timestamp = string

record qrcode =
  qr_id :: uuid
  qr_form_id :: "uuid option"
  qr_premise_id :: "uuid option"
  qr_identifier :: string
  qr_is_active :: "bool option"

record form =
  form_id :: uuid
  form_name :: string
  form_is_active :: "bool option"
  form_premise_id :: "uuid option"

record premise =
  premise_id :: uuid
  premise_owner_id :: "uuid option"

record profile =
  profile_id :: uuid
  profile_full_name :: "string option"
  profile_phone_number :: "string option"
  profile_email :: "string option"

record visit =
  visit_id :: uuid
  visit_visitor_id :: "uuid option"
  visit_premise_id :: "uuid option"
  visit_form_id :: "uuid option"
  visit_qrcode_id :: "uuid option"
  visit_form_data :: "(string \<times> string) list"
  visit_status :: "string option"
  visit_check_in_time :: "timestamp option"
  visit_check_out_time :: "timestamp option"
  visit_denial_reason :: "string option"
  visit_updated_at :: "timestamp option"

record store =
  qrcodes :: "qrcode list"
  forms :: "form list"
  premises_table :: "premise list"
  profiles :: "profile list"
  visits :: "visit list"

text \<open>
  Every handler talks to the store through a client whose calls return a pair of data and
  error. The call sites of the handlers are named, and the environment of a request lists
  the call sites at which the store fails for a reason of its own (connectivity, a policy):
  such a call returns an error and changes nothing.
\<close>

datatype call_site =
    QrSelect | FormSelect | VisitInsert | FindByEmail | FindByPhone | ProfileInsert
  | VisitLink | VisitFetch | VisitUpdate | PremiseFetch | PendingFetch

text \<open>
  \<open>env_now\<close> is the value of \<open>new Date().toISOString()\<close> during the request,
  \<open>env_new_uuid\<close> the key that \<open>uuid_generate_v4()\<close> gives to a row inserted by the
  request, \<open>env_user\<close> the binding of the identifier \<open>user\<close> that the submit route reads
  when it provisions a profile: the route's module declares no such identifier, which is
  \<open>None\<close>, and evaluating \<open>user.id\<close> then throws a ReferenceError.
\<close>

record env =
  env_now :: timestamp
  env_new_uuid :: uuid
  env_user :: "uuid option"
  env_failing :: "call_site list"

definition fails :: "env \<Rightarrow> call_site \<Rightarrow> bool" where
  "fails e c = (c \<in> set (env_failing e))"

datatype store_error = PGRST116 | StoreFailure

text \<open>\<open>.single()\<close>: exactly one row, or the error PGRST116.\<close>

definition single :: "'a list \<Rightarrow> store_error + 'a" where
  "single rows = (case rows of [r] \<Rightarrow> Inr r | _ \<Rightarrow> Inl PGRST116)"

text \<open>\<open>.maybeSingle()\<close>: no row is \<open>null\<close> without an error, several rows are an error.\<close>

definition maybeSingle :: "'a list \<Rightarrow> store_error + 'a option" where
  "maybeSingle rows =
     (case rows of [] \<Rightarrow> Inr None | [r] \<Rightarrow> Inr (Some r) | _ \<Rightarrow> Inl PGRST116)"

text \<open>JavaScript truthiness of an optional string: \<open>null\<close>, \<open>undefined\<close> and \<open>""\<close> are falsy.\<close>

definition truthy :: "string option \<Rightarrow> bool" where
  "truthy x = (case x of None \<Rightarrow> False | Some s \<Rightarrow> s \<noteq> [])"

text \<open>Truthiness of a nullable boolean column.\<close>

definition active :: "bool option \<Rightarrow> bool" where
  "active b = (b = Some True)"

section \<open>Responses\<close>

text \<open>
  A route handler answers with \<open>NextResponse.json(body, {status})\<close>; the status is 200
  when none is given. A dashboard handler reports through \<open>setError\<close> and \<open>setMessage\<close>;
  \<open>ErrStore prefix err\<close> is the error text \<open>prefix\<close> followed by the message of the
  store's error, \<open>Silent\<close> a return that sets neither.
\<close>

datatype body =
    ErrorBody string
  | SubmitOk string uuid
  | VisitOk string visit

datatype response = Response nat body

datatype notice = Err string | ErrStore string store_error | Msg string | Silent

section \<open>The checkout route\<close>

text \<open>
  \<open>POST /api/visits/[visitId]/checkout\<close>. The visit is fetched with its premise embedded
  (\<open>premises (owner_id)\<close>, the premise row whose id is the visit's \<open>premise_id\<close>, or
  \<open>null\<close>).
\<close>

definition premise_of :: "store \<Rightarrow> visit \<Rightarrow> premise option" where
  "premise_of s v =
     (case visit_premise_id v of
        None \<Rightarrow> None
      | Some pid \<Rightarrow> find (\<lambda>p. premise_id p = pid) (premises_table s))"

definition fetch_visit :: "env \<Rightarrow> store \<Rightarrow> uuid \<Rightarrow> store_error + visit" where
  "fetch_visit e s visitId =
     (if fails e VisitFetch then Inl StoreFailure
      else single (filter (\<lambda>v. visit_id v = visitId) (visits s)))"

text \<open>
  An update of the rows with the given id, returning the updated row
  (\<open>.eq('id', visitId).select().single()\<close>). A result that is not exactly one row is an
  error and the statement changes nothing.
\<close>

definition update_visit_by_id ::
  "env \<Rightarrow> store \<Rightarrow> uuid \<Rightarrow> (visit \<Rightarrow> visit) \<Rightarrow> store_error + (visit \<times> store)" where
  "update_visit_by_id e s visitId upd =
     (if fails e VisitUpdate then Inl StoreFailure
      else case single (map upd (filter (\<lambda>v. visit_id v = visitId) (visits s))) of
             Inl err \<Rightarrow> Inl err
           | Inr v' \<Rightarrow>
               Inr (v', s\<lparr>visits := map (\<lambda>v. if visit_id v = visitId then upd v else v) (visits s)\<rparr>))"

definition checkout_update :: "timestamp \<Rightarrow> visit \<Rightarrow> visit" where
  "checkout_update now v =
     v\<lparr>visit_status := Some ''checked_out'',
       visit_check_out_time := Some now,
       visit_updated_at := Some now\<rparr>"

definition checkout :: "env \<Rightarrow> store \<Rightarrow> uuid option \<Rightarrow> uuid \<Rightarrow> response \<times> store" where
  "checkout e s session visitId =
     (if visitId = [] then (Response 400 (ErrorBody ''Visit ID is required''), s)
      else case session of
        None \<Rightarrow> (Response 401 (ErrorBody ''Unauthorized''), s)
      | Some userId \<Rightarrow>
         (case fetch_visit e s visitId of
            Inl PGRST116 \<Rightarrow> (Response 404 (ErrorBody ''Visit not found''), s)
          | Inl StoreFailure \<Rightarrow> (Response 500 (ErrorBody ''Failed to fetch visit details''), s)
          | Inr v \<Rightarrow>
             (case premise_of s v of
                None \<Rightarrow>
                  (Response 403 (ErrorBody ''Forbidden: You do not own this premise.''), s)
              | Some premiseData \<Rightarrow>
                  if premise_owner_id premiseData \<noteq> Some userId
                  then (Response 403 (ErrorBody ''Forbidden: You do not own this premise.''), s)
                  else if visit_status v = Some ''checked_out''
                  then (Response 400 (ErrorBody ''Visitor already checked out.''), s)
                  else if visit_status v \<noteq> Some ''approved''
                  then (Response 400 (ErrorBody ''Visitor not approved yet.''), s)
                  else
                    (case update_visit_by_id e s visitId (checkout_update (env_now e)) of
                       Inl err \<Rightarrow> (Response 500 (ErrorBody ''Failed to check out visitor.''), s)
                     | Inr (updatedVisit, s') \<Rightarrow>
                         (Response 200 (VisitOk ''Visitor checked out successfully'' updatedVisit),
                          s')))))"

section \<open>The deny route\<close>

text \<open>
  \<open>POST /api/visits/[visitId]/deny\<close>: the same session, fetch and ownership steps as the
  checkout route, then the update. The request body is not read.
\<close>

definition deny_update :: "timestamp \<Rightarrow> visit \<Rightarrow> visit" where
  "deny_update now v = v\<lparr>visit_status := Some ''denied'', visit_updated_at := Some now\<rparr>"

definition deny_route :: "env \<Rightarrow> store \<Rightarrow> uuid option \<Rightarrow> uuid \<Rightarrow> response \<times> store" where
  "deny_route e s session visitId =
     (if visitId = [] then (Response 400 (ErrorBody ''Visit ID is required''), s)
      else case session of
        None \<Rightarrow> (Response 401 (ErrorBody ''Unauthorized''), s)
      | Some userId \<Rightarrow>
         (case fetch_visit e s visitId of
            Inl PGRST116 \<Rightarrow> (Response 404 (ErrorBody ''Visit not found''), s)
          | Inl StoreFailure \<Rightarrow> (Response 500 (ErrorBody ''Failed to fetch visit details''), s)
          | Inr v \<Rightarrow>
             (case premise_of s v of
                None \<Rightarrow>
                  (Response 403
                     (ErrorBody ''Forbidden: You do not own this premise or form.''), s)
              | Some premiseData \<Rightarrow>
                  if premise_owner_id premiseData \<noteq> Some userId
                  then (Response 403
                          (ErrorBody ''Forbidden: You do not own this premise or form.''), s)
                  else
                    (case update_visit_by_id e s visitId (deny_update (env_now e)) of
                       Inl err \<Rightarrow> (Response 500 (ErrorBody ''Failed to update visit status.''), s)
                     | Inr (updatedVisit, s') \<Rightarrow>
                         (Response 200 (VisitOk ''Visitor denied successfully'' updatedVisit),
                          s')))))"

section \<open>The dashboard handlers\<close>

text \<open>
  \<open>handleApprove\<close> and \<open>handleDeny\<close> of the manage-visits page update the store directly:
  \<open>.update(...).eq('id', visitId).eq('premise_id', premiseId)\<close>. The statement updates every
  row that passes both filters and reports an error only when the store fails.
  \<open>premiseId\<close> is the page's state, the premise of the signed-in owner.
\<close>

definition update_visits_where ::
  "env \<Rightarrow> store \<Rightarrow> (visit \<Rightarrow> bool) \<Rightarrow> (visit \<Rightarrow> visit) \<Rightarrow> store_error + store" where
  "update_visits_where e s P upd =
     (if fails e VisitUpdate then Inl StoreFailure
      else Inr (s\<lparr>visits := map (\<lambda>v. if P v then upd v else v) (visits s)\<rparr>))"

definition approve_update :: "timestamp \<Rightarrow> visit \<Rightarrow> visit" where
  "approve_update now v = v\<lparr>visit_status := Some ''approved'', visit_updated_at := Some now\<rparr>"

definition handleApprove ::
  "env \<Rightarrow> store \<Rightarrow> uuid option \<Rightarrow> uuid option \<Rightarrow> uuid \<Rightarrow> notice \<times> store" where
  "handleApprove e s session premiseId visitId =
     (if session = None \<or> \<not> truthy premiseId
      then (Err ''User or premise information is missing.'', s)
      else case update_visits_where e s
                  (\<lambda>v. visit_id v = visitId \<and> visit_premise_id v = premiseId)
                  (approve_update (env_now e)) of
             Inl updateError \<Rightarrow> (ErrStore ''Failed to approve visit: '' updateError, s)
           | Inr s' \<Rightarrow> (Msg ''Visit approved successfully.'', s'))"

text \<open>
  \<open>String.prototype.trim\<close> removes leading and trailing white space; among the code
  points 0..255 these are tab, line feed, vertical tab, form feed, carriage return, space
  and the no-break space. The class \<open>\s\<close> of a regular expression is the same set.
\<close>

definition is_space :: "char \<Rightarrow> bool" where
  "is_space c = (c \<in> set [CHR 0x09, CHR 0x0A, CHR 0x0B, CHR 0x0C, CHR 0x0D, CHR 0x20, CHR 0xA0])"

definition trim :: "string \<Rightarrow> string" where
  "trim s = rev (dropWhile is_space (rev (dropWhile is_space s)))"

definition deny_with_reason :: "string \<Rightarrow> timestamp \<Rightarrow> visit \<Rightarrow> visit" where
  "deny_with_reason reason now v =
     v\<lparr>visit_status := Some ''denied'',
       visit_denial_reason := Some reason,
       visit_updated_at := Some now\<rparr>"

text \<open>\<open>reason\<close> is what \<open>prompt\<close> returned: \<open>None\<close> when the owner cancelled the dialog.\<close>

definition handleDeny ::
  "env \<Rightarrow> store \<Rightarrow> uuid option \<Rightarrow> uuid option \<Rightarrow> uuid \<Rightarrow> string option \<Rightarrow> notice \<times> store" where
  "handleDeny e s session premiseId visitId reason =
     (case reason of
        None \<Rightarrow> (Silent, s)
      | Some r \<Rightarrow>
          if trim r = [] then (Err ''A reason for denial is required.'', s)
          else if session = None \<or> \<not> truthy premiseId
          then (Err ''User or premise information is missing.'', s)
          else case update_visits_where e s
                      (\<lambda>v. visit_id v = visitId \<and> visit_premise_id v = premiseId)
                      (deny_with_reason r (env_now e)) of
                 Inl updateError \<Rightarrow> (ErrStore ''Failed to deny visit: '' updateError, s)
               | Inr s' \<Rightarrow> (Msg (''Visit denied. Reason: '' @ r), s'))"

section \<open>The submit route\<close>

text \<open>
  \<open>POST /api/visits/submit\<close> with the JSON body \<open>{qrIdentifier, formData}\<close>.
  \<open>formData\<close> is an object from field labels to submitted strings, given as the list of
  its entries in the order in which \<open>for (const key in formData)\<close> visits them.
\<close>

type_synonym form_data = "(string \<times> string) list"

definition fetch_qrcode :: "env \<Rightarrow> store \<Rightarrow> string \<Rightarrow> store_error + qrcode" where
  "fetch_qrcode e s qrIdentifier =
     (if fails e QrSelect then Inl StoreFailure
      else single (filter (\<lambda>q. qr_identifier q = qrIdentifier) (qrcodes s)))"

definition fetch_form :: "env \<Rightarrow> store \<Rightarrow> uuid option \<Rightarrow> store_error + form" where
  "fetch_form e s formId =
     (if fails e FormSelect then Inl StoreFailure
      else case formId of
             None \<Rightarrow> Inl PGRST116
           | Some fid \<Rightarrow> single (filter (\<lambda>f. form_id f = fid) (forms s)))"

text \<open>Steps 1 and 2 of the route: the checks that come before any write.\<close>

definition intake_checks :: "env \<Rightarrow> store \<Rightarrow> string \<Rightarrow> response + (qrcode \<times> form)" where
  "intake_checks e s qrIdentifier =
     (case fetch_qrcode e s qrIdentifier of
        Inl qrError \<Rightarrow> Inl (Response 404 (ErrorBody ''Invalid or expired QR code.''))
      | Inr qrCodeData \<Rightarrow>
          if \<not> active (qr_is_active qrCodeData)
          then Inl (Response 400 (ErrorBody ''This QR code is no longer active.''))
          else
            (case fetch_form e s (qr_form_id qrCodeData) of
               Inl formDetailsError \<Rightarrow>
                 Inl (Response 404 (ErrorBody ''Form associated with this QR code not found.''))
             | Inr formDetails \<Rightarrow>
                 if \<not> active (form_is_active formDetails)
                 then Inl (Response 400 (ErrorBody ''This form is no longer active.''))
                 else if form_premise_id formDetails \<noteq> qr_premise_id qrCodeData
                 then Inl (Response 500 (ErrorBody ''Form configuration error.''))
                 else Inr (qrCodeData, formDetails)))"

text \<open>
  \<open>key.toLowerCase().replace(/\s+/g, '_')\<close>. Among the code points 0..255 the letters
  with a lower-case partner are A..Z and the Latin-1 capitals 0xC0..0xDE without the
  multiplication sign 0xD7.
\<close>

definition lower_char :: "char \<Rightarrow> char" where
  "lower_char c =
     (let n = (of_char c :: nat)
      in if (65 \<le> n \<and> n \<le> 90) \<or> (192 \<le> n \<and> n \<le> 222 \<and> n \<noteq> 215)
         then char_of (n + 32) else c)"

definition toLowerCase :: "string \<Rightarrow> string" where
  "toLowerCase s = map lower_char s"

function replace_spaces :: "string \<Rightarrow> string" where
  "replace_spaces [] = []"
| "replace_spaces (c # cs) =
     (if is_space c then CHR ''_'' # replace_spaces (dropWhile is_space cs)
      else c # replace_spaces cs)"
  by pat_completeness auto
termination
  by (relation "measure length") (auto simp: length_dropWhile_le less_Suc_eq_le)

definition normalize_key :: "string \<Rightarrow> string" where
  "normalize_key key = replace_spaces (toLowerCase key)"

text \<open>
  \<open>normalizedFormData\<close>: one assignment per entry of \<open>formData\<close>, a later entry
  overwriting an earlier one with the same normalized key.
\<close>

definition normalizedFormData :: "form_data \<Rightarrow> (string \<rightharpoonup> string)" where
  "normalizedFormData formData =
     foldl (\<lambda>m (key, val). m(normalize_key key \<mapsto> val)) Map.empty formData"

text \<open>JavaScript's \<open>a || b\<close> on optional strings.\<close>

definition js_or :: "string option \<Rightarrow> string option \<Rightarrow> string option" where
  "js_or a b = (if truthy a then a else b)"

record visitor_fields =
  visitorEmail :: "string option"
  visitorPhone :: "string option"
  visitorFullName :: "string option"
  visitorIdNumber :: "string option"

definition extract_visitor :: "form_data \<Rightarrow> visitor_fields" where
  "extract_visitor formData =
     (let n = normalizedFormData formData
      in \<lparr>visitorEmail = n ''email'',
          visitorPhone = js_or (n ''phone_number'') (n ''phone''),
          visitorFullName = js_or (n ''full_name'') (n ''name''),
          visitorIdNumber = n ''id_number''\<rparr>)"

text \<open>
  Step 3, the insert into \<open>visits\<close>. The store gives the row its key and the defaults of
  the columns the route leaves out; a key that is already taken violates the primary key.
\<close>

definition new_visit :: "env \<Rightarrow> qrcode \<Rightarrow> form \<Rightarrow> form_data \<Rightarrow> visit" where
  "new_visit e qrCodeData formDetails formData =
     \<lparr>visit_id = env_new_uuid e,
      visit_visitor_id = None,
      visit_premise_id = qr_premise_id qrCodeData,
      visit_form_id = Some (form_id formDetails),
      visit_qrcode_id = Some (qr_id qrCodeData),
      visit_form_data = formData,
      visit_status = Some ''checked_in'',
      visit_check_in_time = Some (env_now e),
      visit_check_out_time = None,
      visit_denial_reason = None,
      visit_updated_at = Some (env_now e)\<rparr>"

definition insert_visit :: "env \<Rightarrow> store \<Rightarrow> visit \<Rightarrow> store_error + (visit \<times> store)" where
  "insert_visit e s row =
     (if fails e VisitInsert \<or> visit_id row \<in> set (map visit_id (visits s))
      then Inl StoreFailure
      else Inr (row, s\<lparr>visits := visits s @ [row]\<rparr>))"

text \<open>
  Step 4, find or create the visitor. Each lookup is \<open>.eq(column, value).maybeSingle()\<close>
  on \<open>profiles\<close>; an error of a lookup is logged and the route goes on.
\<close>

definition find_profile ::
  "env \<Rightarrow> call_site \<Rightarrow> store \<Rightarrow> (profile \<Rightarrow> bool) \<Rightarrow> store_error + profile option" where
  "find_profile e site s P =
     (if fails e site then Inl StoreFailure else maybeSingle (filter P (profiles s)))"

definition by_email :: "env \<Rightarrow> store \<Rightarrow> visitor_fields \<Rightarrow> uuid option" where
  "by_email e s f =
     (if truthy (visitorEmail f)
      then (case find_profile e FindByEmail s (\<lambda>p. profile_email p = visitorEmail f) of
              Inl findByEmailError \<Rightarrow> None
            | Inr None \<Rightarrow> None
            | Inr (Some existingVisitor) \<Rightarrow> Some (profile_id existingVisitor))
      else None)"

definition by_phone :: "env \<Rightarrow> store \<Rightarrow> visitor_fields \<Rightarrow> uuid option \<Rightarrow> uuid option" where
  "by_phone e s f visitorIdToLink =
     (if \<not> truthy visitorIdToLink \<and> truthy (visitorPhone f)
      then (case find_profile e FindByPhone s (\<lambda>p. profile_phone_number p = visitorPhone f) of
              Inl findByPhoneError \<Rightarrow> visitorIdToLink
            | Inr None \<Rightarrow> visitorIdToLink
            | Inr (Some existingVisitor) \<Rightarrow> Some (profile_id existingVisitor))
      else visitorIdToLink)"

definition insert_profile :: "env \<Rightarrow> store \<Rightarrow> profile \<Rightarrow> store_error + (profile \<times> store)" where
  "insert_profile e s row =
     (if fails e ProfileInsert \<or> profile_id row \<in> set (map profile_id (profiles s))
      then Inl StoreFailure
      else Inr (row, s\<lparr>profiles := profiles s @ [row]\<rparr>))"

text \<open>
  A statement either completes or throws; what the route's \<open>try\<close> block throws, its
  \<open>catch\<close> turns into the response 500 \<open>Internal Server Error\<close>.
\<close>

datatype 'a completion = Thrown | Normal 'a

text \<open>
  The new profile row is \<open>{id: user.id, full_name: visitorFullName, phone_number:
  visitorPhone}\<close>; the email is not part of it. The row is built before the insert is
  sent, so an unbound \<open>user\<close> throws before the store is asked.
\<close>

definition provision ::
  "env \<Rightarrow> store \<Rightarrow> visitor_fields \<Rightarrow> uuid option \<Rightarrow> (uuid option \<times> store) completion" where
  "provision e s f visitorIdToLink =
     (if \<not> truthy visitorIdToLink \<and>
         (truthy (visitorFullName f) \<or> truthy (visitorEmail f) \<or> truthy (visitorIdNumber f))
      then (case env_user e of
              None \<Rightarrow> Thrown
            | Some uid \<Rightarrow>
                (case insert_profile e s
                        \<lparr>profile_id = uid,
                         profile_full_name = visitorFullName f,
                         profile_phone_number = visitorPhone f,
                         profile_email = None\<rparr> of
                   Inl createError \<Rightarrow> Normal (visitorIdToLink, s)
                 | Inr (newVisitor, s') \<Rightarrow> Normal (Some (profile_id newVisitor), s')))
      else Normal (visitorIdToLink, s))"

definition resolve_visitor ::
  "env \<Rightarrow> store \<Rightarrow> visitor_fields \<Rightarrow> (uuid option \<times> store) completion" where
  "resolve_visitor e s f = provision e s f (by_phone e s f (by_email e s f))"

definition link_update :: "uuid option \<Rightarrow> timestamp \<Rightarrow> visit \<Rightarrow> visit" where
  "link_update visitorIdToLink now v =
     v\<lparr>visit_visitor_id := visitorIdToLink, visit_updated_at := Some now\<rparr>"

definition link_visit :: "env \<Rightarrow> store \<Rightarrow> uuid \<Rightarrow> uuid option \<Rightarrow> store" where
  "link_visit e s visitId visitorIdToLink =
     (if truthy visitorIdToLink \<and> \<not> fails e VisitLink
      then s\<lparr>visits := map (\<lambda>v. if visit_id v = visitId
                                then link_update visitorIdToLink (env_now e) v else v)
                           (visits s)\<rparr>
      else s)"

text \<open>
  The route's \<open>try\<close> block with its \<open>catch\<close>: the request check, steps 1 to 4, and
  the answer.
\<close>

definition submit_try ::
  "env \<Rightarrow> store \<Rightarrow> string option \<Rightarrow> form_data option \<Rightarrow> response \<times> store" where
  "submit_try e s qrIdentifier formData =
     (case (qrIdentifier, formData) of
        (Some qr, Some fd) \<Rightarrow>
          if qr = [] then (Response 400 (ErrorBody ''Missing qrIdentifier or formData''), s)
          else
            (case intake_checks e s qr of
               Inl resp \<Rightarrow> (resp, s)
             | Inr (qrCodeData, formDetails) \<Rightarrow>
                 (case insert_visit e s (new_visit e qrCodeData formDetails fd) of
                    Inl insertError \<Rightarrow> (Response 500 (ErrorBody ''Failed to submit form.''), s)
                  | Inr (visitData, s1) \<Rightarrow>
                      (case resolve_visitor e s1 (extract_visitor fd) of
                         Thrown \<Rightarrow> (Response 500 (ErrorBody ''Internal Server Error''), s1)
                       | Normal (visitorIdToLink, s2) \<Rightarrow>
                           (Response 201
                              (SubmitOk ''Visit recorded successfully'' (visit_id visitData)),
                            link_visit e s2 (visit_id visitData) visitorIdToLink))))
      | _ \<Rightarrow> (Response 400 (ErrorBody ''Missing qrIdentifier or formData''), s))"

text \<open>
  The names that the route's module brings into scope are its five imports.
\<close>

definition submit_scope :: "string list" where
  "submit_scope =
     [''createRouteHandlerClient'', ''cookies'', ''NextResponse'', ''NextRequest'', ''Database'']"

text \<open>
  The route handler. Its first statement, \<open>const supabase = createClientComponentClient(...)\<close>,
  stands before the \<open>try\<close> block and calls a name that is not in scope: it throws a
  ReferenceError that nothing in the route catches, and \<open>submit_try\<close>, the \<open>try\<close>
  block with its \<open>catch\<close>, is not entered. A handler that throws answers nothing and
  leaves the store as it is.
\<close>

definition submit ::
  "env \<Rightarrow> store \<Rightarrow> string option \<Rightarrow> form_data option \<Rightarrow> (response \<times> store) completion" where
  "submit e s qrIdentifier formData =
     (if ''createClientComponentClient'' \<in> set submit_scope
      then Normal (submit_try e s qrIdentifier formData)
      else Thrown)"

section \<open>Requests and histories\<close>

text \<open>
  The handlers, each with the environment of its request and its arguments, and the store
  after a sequence of calls. \<open>Uncaught\<close> is the outcome of a handler that throws.
\<close>

datatype request =
    Submit env "string option" "form_data option"
  | Approve env "uuid option" "uuid option" uuid
  | Deny env "uuid option" "uuid option" uuid "string option"
  | DenyRoute env "uuid option" uuid
  | Checkout env "uuid option" uuid

datatype reply = Http response | Ui notice | Uncaught

fun perform :: "store \<Rightarrow> request \<Rightarrow> reply \<times> store" where
  "perform s (Submit e qrIdentifier formData) =
     (case submit e s qrIdentifier formData of
        Thrown \<Rightarrow> (Uncaught, s)
      | Normal (r, s') \<Rightarrow> (Http r, s'))"
| "perform s (Approve e session premiseId visitId) =
     (case handleApprove e s session premiseId visitId of (n, s') \<Rightarrow> (Ui n, s'))"
| "perform s (Deny e session premiseId visitId reason) =
     (case handleDeny e s session premiseId visitId reason of (n, s') \<Rightarrow> (Ui n, s'))"
| "perform s (DenyRoute e session visitId) =
     (case deny_route e s session visitId of (r, s') \<Rightarrow> (Http r, s'))"
| "perform s (Checkout e session visitId) =
     (case checkout e s session visitId of (r, s') \<Rightarrow> (Http r, s'))"

fun run :: "store \<Rightarrow> request list \<Rightarrow> store" where
  "run s [] = s"
| "run s (r # rs) = run (snd (perform s r)) rs"

fun replies :: "store \<Rightarrow> request list \<Rightarrow> reply list" where
  "replies s [] = []"
| "replies s (r # rs) = fst (perform s r) # replies (snd (perform s r)) rs"

section \<open>The manage-visits page and what can happen\<close>










section \<open>Example data\<close>

text \<open>
  One premise with its owner, one active form and its active QR code; stores over them with
  a single visit in a chosen state; and environments whose store never fails.
\<close>

definition qr1 :: qrcode where
  "qr1 = \<lparr>qr_id = ''q1'', qr_form_id = Some ''f1'', qr_premise_id = Some ''p1'',
          qr_identifier = ''qr-1'', qr_is_active = Some True\<rparr>"

definition form1 :: form where
  "form1 = \<lparr>form_id = ''f1'', form_name = ''Visitors'', form_is_active = Some True,
            form_premise_id = Some ''p1''\<rparr>"

definition premise1 :: premise where
  "premise1 = \<lparr>premise_id = ''p1'', premise_owner_id = Some ''owner1''\<rparr>"

definition store0 :: store where
  "store0 = \<lparr>qrcodes = [qr1], forms = [form1], premises_table = [premise1],
             profiles = [], visits = []\<rparr>"

definition visit1 :: "string \<Rightarrow> timestamp option \<Rightarrow> visit" where
  "visit1 st out =
     \<lparr>visit_id = ''v1'', visit_visitor_id = None, visit_premise_id = Some ''p1'',
      visit_form_id = Some ''f1'', visit_qrcode_id = Some ''q1'',
      visit_form_data = [(''Purpose Of Visit'', ''Delivery'')],
      visit_status = Some st, visit_check_in_time = Some ''t1'',
      visit_check_out_time = out, visit_denial_reason = None,
      visit_updated_at = Some ''t1''\<rparr>"

definition store_with :: "string \<Rightarrow> timestamp option \<Rightarrow> store" where
  "store_with st out = store0\<lparr>visits := [visit1 st out]\<rparr>"

definition env_at :: "timestamp \<Rightarrow> uuid \<Rightarrow> env" where
  "env_at t u = \<lparr>env_now = t, env_new_uuid = u, env_user = None, env_failing = []\<rparr>"

text \<open>
  The same premise with the QR code switched on or off, the form switched on or off, and
  the form filed under a premise of its own.
\<close>

definition store_cfg :: "bool \<Rightarrow> bool \<Rightarrow> uuid \<Rightarrow> store" where
  "store_cfg qr_on form_on form_premise =
     \<lparr>qrcodes = [qr1\<lparr>qr_is_active := Some qr_on\<rparr>],
      forms = [form1\<lparr>form_is_active := Some form_on, form_premise_id := Some form_premise\<rparr>],
      premises_table = [premise1], profiles = [], visits = []\<rparr>"

text \<open>Two submissions of one visitor, with the same email and different phone numbers.\<close>

definition jane1 :: form_data where
  "jane1 = [(''Full Name'', ''Jane''), (''Email'', ''jane@x.com''), (''Phone'', ''111'')]"

definition jane2 :: form_data where
  "jane2 = [(''Full Name'', ''Jane''), (''Email'', ''jane@x.com''), (''Phone'', ''222'')]"



section \<open>Store lemmas\<close>

lemma single_Inr_iff: "single rows = Inr r \<longleftrightarrow> rows = [r]"
  by (auto simp: single_def split: list.splits)

lemma filter_map_update:
  assumes "\<And>w. visit_id (upd w) = visit_id w"
  shows "filter (\<lambda>w. visit_id w = vid) (map (\<lambda>w. if visit_id w = vid then upd w else w) xs)
       = map upd (filter (\<lambda>w. visit_id w = vid) xs)"
  by (induction xs) (auto simp: assms)

lemma fetch_visit_Inr:
  "fetch_visit e s vid = Inr v \<longleftrightarrow>
     \<not> fails e VisitFetch \<and> filter (\<lambda>w. visit_id w = vid) (visits s) = [v]"
  by (auto simp: fetch_visit_def single_Inr_iff)

lemma update_visit_by_id_one:
  assumes "filter (\<lambda>w. visit_id w = vid) (visits s) = [v]" "\<not> fails e VisitUpdate"
  shows "update_visit_by_id e s vid upd =
     Inr (upd v, s\<lparr>visits := map (\<lambda>w. if visit_id w = vid then upd w else w) (visits s)\<rparr>)"
  using assms by (simp add: update_visit_by_id_def single_def)

lemma checkout_update_id: "visit_id (checkout_update now w) = visit_id w"
  by (simp add: checkout_update_def)



lemma provision_Normal:
  "provision e s f x = Normal (y, s') \<Longrightarrow>
     visits s' = visits s \<and> qrcodes s' = qrcodes s \<and> forms s' = forms s \<and>
     premises_table s' = premises_table s \<and>
     (profiles s' = profiles s \<or> (\<exists>p. profiles s' = profiles s @ [p]))"
  by (auto simp: provision_def insert_profile_def split: if_splits option.splits sum.splits)

lemma visits_link_visit:
  "visits (link_visit e s vid x) = visits s \<or>
   visits (link_visit e s vid x) =
     map (\<lambda>v. if visit_id v = vid then link_update x (env_now e) v else v) (visits s)"
  by (simp add: link_visit_def)

lemma insert_visit_Inr:
  "insert_visit e s row = Inr res \<Longrightarrow> res = (row, s\<lparr>visits := visits s @ [row]\<rparr>)"
  by (auto simp: insert_visit_def split: if_splits)

lemma submit_rejected:
  "\<not> (\<exists>qr d. q = Some qr \<and> fd = Some d \<and> qr \<noteq> []) \<Longrightarrow> snd (submit_try e s q fd) = s"
  by (cases q; cases fd) (simp_all add: submit_try_def)

section \<open>The invariant of a visit\<close>














text \<open>
  The hypothesis matters. In a store that already holds an approved visit, which no history
  above produces, the two routes alone leave a denied visit with a \<open>check_out_time\<close>: the
  deny route does not look at the status.
\<close>

lemma deny_after_checkout:
  "map visit_status
     (visits (run (store_with ''approved'' None)
                [Checkout (env_at ''t2'' ''u2'') (Some ''owner1'') ''v1'',
                 DenyRoute (env_at ''t3'' ''u3'') (Some ''owner1'') ''v1''])) = [Some ''denied'']
   \<and> map visit_check_out_time
     (visits (run (store_with ''approved'' None)
                [Checkout (env_at ''t2'' ''u2'') (Some ''owner1'') ''v1'',
                 DenyRoute (env_at ''t3'' ''u3'') (Some ''owner1'') ''v1''])) = [Some ''t2'']"
  by code_simp

section \<open>Checkout\<close>

text \<open>
  C4. A checkout request that passes the session, fetch and ownership steps is refused with
  400 \<open>Visitor already checked out.\<close> when the visit's status is \<open>checked_out\<close>, refused
  with 400 \<open>Visitor not approved yet.\<close> when the status is anything else than
  \<open>approved\<close>, and otherwise answered with 200: the visit that the store then holds under
  this id has the status \<open>checked_out\<close> and the current time as its \<open>check_out_time\<close>.
\<close>

theorem checkout_guards:
  assumes "visitId \<noteq> []"
    and "fetch_visit e s visitId = Inr v"
    and "premise_of s v = Some p"
    and "premise_owner_id p = Some userId"
    and "\<not> fails e VisitUpdate"
  shows "(visit_status v = Some ''checked_out'' \<longrightarrow>
            checkout e s (Some userId) visitId =
              (Response 400 (ErrorBody ''Visitor already checked out.''), s))
       \<and> (visit_status v \<noteq> Some ''checked_out'' \<and> visit_status v \<noteq> Some ''approved'' \<longrightarrow>
            checkout e s (Some userId) visitId =
              (Response 400 (ErrorBody ''Visitor not approved yet.''), s))
       \<and> (visit_status v = Some ''approved'' \<longrightarrow>
            fst (checkout e s (Some userId) visitId) =
              Response 200 (VisitOk ''Visitor checked out successfully''
                              (v\<lparr>visit_status := Some ''checked_out'',
                                 visit_check_out_time := Some (env_now e),
                                 visit_updated_at := Some (env_now e)\<rparr>))
          \<and> fetch_visit e (snd (checkout e s (Some userId) visitId)) visitId =
              Inr (v\<lparr>visit_status := Some ''checked_out'',
                      visit_check_out_time := Some (env_now e),
                      visit_updated_at := Some (env_now e)\<rparr>))"
proof -
  from assms(2) have nf: "\<not> fails e VisitFetch"
    and one: "filter (\<lambda>w. visit_id w = visitId) (visits s) = [v]"
    by (simp_all add: fetch_visit_Inr)
  let ?s' = "s\<lparr>visits := map (\<lambda>w. if visit_id w = visitId
                                   then checkout_update (env_now e) w else w) (visits s)\<rparr>"
  have upd: "update_visit_by_id e s visitId (checkout_update (env_now e)) =
     Inr (checkout_update (env_now e) v, ?s')"
    using one assms(5) by (rule update_visit_by_id_one)
  have c1: "visit_status v = Some ''checked_out'' \<Longrightarrow>
            checkout e s (Some userId) visitId =
              (Response 400 (ErrorBody ''Visitor already checked out.''), s)"
    using assms by (simp add: checkout_def)
  have c2: "visit_status v \<noteq> Some ''checked_out'' \<Longrightarrow> visit_status v \<noteq> Some ''approved'' \<Longrightarrow>
            checkout e s (Some userId) visitId =
              (Response 400 (ErrorBody ''Visitor not approved yet.''), s)"
    using assms by (simp add: checkout_def)
  have c3: "visit_status v = Some ''approved'' \<Longrightarrow>
            checkout e s (Some userId) visitId =
              (Response 200 (VisitOk ''Visitor checked out successfully''
                   (checkout_update (env_now e) v)), ?s')"
    using assms upd by (simp add: checkout_def)
  have readback: "fetch_visit e ?s' visitId = Inr (checkout_update (env_now e) v)"
    using nf one by (simp add: fetch_visit_Inr filter_map_update checkout_update_id)
  show ?thesis
    using c1 c2 c3 readback by (simp add: checkout_update_def)
qed

text \<open>
  The four cases on stores with one visit of the owner's premise: checked out, checked in,
  denied, approved.
\<close>

theorem checkout_guards_witness:
  "fetch_visit (env_at ''t5'' ''u5'') (store_with ''approved'' None) ''v1'' =
     Inr (visit1 ''approved'' None)
   \<and> premise_of (store_with ''approved'' None) (visit1 ''approved'' None) = Some premise1
   \<and> premise_owner_id premise1 = Some ''owner1''
   \<and> \<not> fails (env_at ''t5'' ''u5'') VisitUpdate
   \<and> checkout (env_at ''t5'' ''u5'') (store_with ''checked_out'' (Some ''t3'')) (Some ''owner1'') ''v1'' =
     (Response 400 (ErrorBody ''Visitor already checked out.''),
      store_with ''checked_out'' (Some ''t3''))
   \<and> checkout (env_at ''t5'' ''u5'') (store_with ''checked_in'' None) (Some ''owner1'') ''v1'' =
     (Response 400 (ErrorBody ''Visitor not approved yet.''), store_with ''checked_in'' None)
   \<and> checkout (env_at ''t5'' ''u5'') (store_with ''denied'' None) (Some ''owner1'') ''v1'' =
     (Response 400 (ErrorBody ''Visitor not approved yet.''), store_with ''denied'' None)
   \<and> fst (checkout (env_at ''t5'' ''u5'') (store_with ''approved'' None) (Some ''owner1'') ''v1'') =
       Response 200 (VisitOk ''Visitor checked out successfully''
         (visit1 ''checked_out'' (Some ''t5'')\<lparr>visit_updated_at := Some ''t5''\<rparr>))
   \<and> fetch_visit (env_at ''t5'' ''u5'')
        (snd (checkout (env_at ''t5'' ''u5'') (store_with ''approved'' None) (Some ''owner1'') ''v1''))
        ''v1'' =
       Inr (visit1 ''checked_out'' (Some ''t5'')\<lparr>visit_updated_at := Some ''t5''\<rparr>)"
proof -
  let ?e = "env_at ''t5'' ''u5''"
  have id: "''v1'' \<noteq> []" by simp
  have own: "premise_owner_id premise1 = Some ''owner1''" by (simp add: premise1_def)
  have up: "\<not> fails ?e VisitUpdate" by (simp add: fails_def env_at_def)
  have f: "fetch_visit ?e (store_with st out) ''v1'' = Inr (visit1 st out)" for st out
    by (simp add: fetch_visit_def fails_def env_at_def store_with_def visit1_def single_def)
  have p: "premise_of (store_with st out) (visit1 st out) = Some premise1" for st out
    by (simp add: premise_of_def store_with_def store0_def visit1_def premise1_def)
  have st: "visit_status (visit1 st out) = Some st" for st out
    by (simp add: visit1_def)
  have now: "env_now ?e = ''t5''" by (simp add: env_at_def)
  from checkout_guards[OF id f p own up, of "''checked_out''" "Some ''t3''"]
       checkout_guards[OF id f p own up, of "''checked_in''" None]
       checkout_guards[OF id f p own up, of "''denied''" None]
       checkout_guards[OF id f p own up, of "''approved''" None]
  show ?thesis
    unfolding st now using f p own up by (simp add: visit1_def)
qed


section \<open>Approve\<close>

lemma handleApprove_success:
  assumes "session \<noteq> None" "truthy premiseId" "\<not> fails e VisitUpdate"
  shows "handleApprove e s session premiseId visitId =
     (Msg ''Visit approved successfully.'',
      s\<lparr>visits := map (\<lambda>v. if visit_id v = visitId \<and> visit_premise_id v = premiseId
                             then approve_update (env_now e) v else v) (visits s)\<rparr>)"
  using assms by (simp add: handleApprove_def update_visits_where_def)

lemma handleDeny_success:
  assumes "trim r \<noteq> []" "session \<noteq> None" "truthy premiseId" "\<not> fails e VisitUpdate"
  shows "handleDeny e s session premiseId visitId (Some r) =
     (Msg (''Visit denied. Reason: '' @ r),
      s\<lparr>visits := map (\<lambda>v. if visit_id v = visitId \<and> visit_premise_id v = premiseId
                             then deny_with_reason r (env_now e) v else v) (visits s)\<rparr>)"
  using assms by (simp add: handleDeny_def update_visits_where_def)

lemma map_update_mem:
  "v \<in> set xs \<Longrightarrow> P v \<Longrightarrow> f v \<in> set (map (\<lambda>w. if P w then f w else w) xs)"
  by (induction xs) auto

lemma map_update_none:
  "\<forall>v\<in>set xs. \<not> P v \<Longrightarrow> map (\<lambda>w. if P w then f w else w) xs = xs"
  by (induction xs) auto

text \<open>
  C2, as the code has it. \<open>handleApprove\<close> carries no status guard. For a signed-in
  owner whose premise owns the visit, approve reports success whatever the visit's current
  status and sets the status to \<open>approved\<close>; a second approve of the same visit reports
  success again and leaves the status \<open>approved\<close>.
\<close>

theorem approve_without_status_guard:
  assumes "session \<noteq> None" and "truthy premiseId"
    and "\<not> fails e VisitUpdate" and "\<not> fails e' VisitUpdate"
    and "v \<in> set (visits s)" and "visit_id v = visitId" and "visit_premise_id v = premiseId"
  shows "fst (handleApprove e s session premiseId visitId) = Msg ''Visit approved successfully.''
       \<and> v\<lparr>visit_status := Some ''approved'', visit_updated_at := Some (env_now e)\<rparr>
           \<in> set (visits (snd (handleApprove e s session premiseId visitId)))
       \<and> fst (handleApprove e' (snd (handleApprove e s session premiseId visitId))
                session premiseId visitId) = Msg ''Visit approved successfully.''
       \<and> v\<lparr>visit_status := Some ''approved'', visit_updated_at := Some (env_now e')\<rparr>
           \<in> set (visits (snd (handleApprove e' (snd (handleApprove e s session premiseId visitId))
                                  session premiseId visitId)))"
proof -
  let ?P = "\<lambda>w. visit_id w = visitId \<and> visit_premise_id w = premiseId"
  define s1 where "s1 = snd (handleApprove e s session premiseId visitId)"
  define s2 where "s2 = snd (handleApprove e' s1 session premiseId visitId)"
  have first: "handleApprove e s session premiseId visitId =
      (Msg ''Visit approved successfully.'',
       s\<lparr>visits := map (\<lambda>w. if ?P w then approve_update (env_now e) w else w) (visits s)\<rparr>)"
    using assms(1-3) by (rule handleApprove_success)
  have second: "handleApprove e' s1 session premiseId visitId =
      (Msg ''Visit approved successfully.'',
       s1\<lparr>visits := map (\<lambda>w. if ?P w then approve_update (env_now e') w else w) (visits s1)\<rparr>)"
    using assms(1,2,4) by (rule handleApprove_success)
  have v1: "visits s1 = map (\<lambda>w. if ?P w then approve_update (env_now e) w else w) (visits s)"
    unfolding s1_def first by simp
  have v2: "visits s2 = map (\<lambda>w. if ?P w then approve_update (env_now e') w else w) (visits s1)"
    unfolding s2_def second by simp
  have Pv: "?P v" using assms(6,7) by simp
  have m1: "approve_update (env_now e) v \<in> set (visits s1)"
    unfolding v1 using assms(5) Pv by (rule map_update_mem)
  have P1: "?P (approve_update (env_now e) v)"
    using Pv by (simp add: approve_update_def)
  have m2: "approve_update (env_now e') (approve_update (env_now e) v) \<in> set (visits s2)"
    unfolding v2 using m1 P1 by (rule map_update_mem)
  have twice: "approve_update (env_now e') (approve_update (env_now e) v) =
      v\<lparr>visit_status := Some ''approved'', visit_updated_at := Some (env_now e')\<rparr>"
    by (simp add: approve_update_def)
  have once: "approve_update (env_now e) v =
      v\<lparr>visit_status := Some ''approved'', visit_updated_at := Some (env_now e)\<rparr>"
    by (simp add: approve_update_def)
  have r1: "fst (handleApprove e s session premiseId visitId) = Msg ''Visit approved successfully.''"
    unfolding first by simp
  have r2: "fst (handleApprove e' s1 session premiseId visitId) = Msg ''Visit approved successfully.''"
    unfolding second by simp
  have m1': "v\<lparr>visit_status := Some ''approved'', visit_updated_at := Some (env_now e)\<rparr>
      \<in> set (visits s1)"
    using m1 unfolding once .
  have m2': "v\<lparr>visit_status := Some ''approved'', visit_updated_at := Some (env_now e')\<rparr>
      \<in> set (visits s2)"
    using m2 unfolding twice .
  from r1 r2 m1' m2' show ?thesis
    unfolding s2_def s1_def by blast
qed

text \<open>A denied visit of the owner's premise, approved twice.\<close>

theorem approve_without_status_guard_witness:
  "visit1 ''denied'' None \<in> set (visits (store_with ''denied'' None))
   \<and> fst (handleApprove (env_at ''t2'' ''u2'') (store_with ''denied'' None)
            (Some ''owner1'') (Some ''p1'') ''v1'') = Msg ''Visit approved successfully.''
   \<and> visit1 ''approved'' None\<lparr>visit_updated_at := Some ''t2''\<rparr>
       \<in> set (visits (snd (handleApprove (env_at ''t2'' ''u2'') (store_with ''denied'' None)
                               (Some ''owner1'') (Some ''p1'') ''v1'')))
   \<and> fst (handleApprove (env_at ''t3'' ''u3'')
            (snd (handleApprove (env_at ''t2'' ''u2'') (store_with ''denied'' None)
                    (Some ''owner1'') (Some ''p1'') ''v1''))
            (Some ''owner1'') (Some ''p1'') ''v1'') = Msg ''Visit approved successfully.''
   \<and> visit1 ''approved'' None\<lparr>visit_updated_at := Some ''t3''\<rparr>
       \<in> set (visits (snd (handleApprove (env_at ''t3'' ''u3'')
            (snd (handleApprove (env_at ''t2'' ''u2'') (store_with ''denied'' None)
                    (Some ''owner1'') (Some ''p1'') ''v1''))
            (Some ''owner1'') (Some ''p1'') ''v1'')))"
proof -
  have a: "Some ''owner1'' \<noteq> None" by simp
  have b: "truthy (Some ''p1'')" by (simp add: truthy_def)
  have c: "\<not> fails (env_at t u) VisitUpdate" for t u by (simp add: fails_def env_at_def)
  have d: "visit1 ''denied'' None \<in> set (visits (store_with ''denied'' None))"
    by (simp add: store_with_def)
  have i: "visit_id (visit1 ''denied'' None) = ''v1''" by (simp add: visit1_def)
  have p: "visit_premise_id (visit1 ''denied'' None) = Some ''p1''" by (simp add: visit1_def)
  have n: "env_now (env_at t u) = t" for t u by (simp add: env_at_def)
  have u: "visit1 ''denied'' None\<lparr>visit_status := Some ''approved'', visit_updated_at := Some t\<rparr>
        = visit1 ''approved'' None\<lparr>visit_updated_at := Some t\<rparr>" for t
    by (simp add: visit1_def)
  from approve_without_status_guard[OF a b c c d i p, of "''t2''" "''u2''" "''t3''" "''u3''"] d
  show ?thesis unfolding n u by simp
qed

text \<open>
  C2 as stated fails: the second approve of a pending visit reports success, not an invalid
  transition, and so does the approve of a visit that is already checked out, whose status
  becomes \<open>approved\<close>.
\<close>

theorem second_approval_counterexample:
  "replies (store_with ''pending_approval'' None)
     [Approve (env_at ''t2'' ''u2'') (Some ''owner1'') (Some ''p1'') ''v1'',
      Approve (env_at ''t3'' ''u3'') (Some ''owner1'') (Some ''p1'') ''v1'']
     = [Ui (Msg ''Visit approved successfully.''), Ui (Msg ''Visit approved successfully.'')]
   \<and> fst (handleApprove (env_at ''t4'' ''u4'') (store_with ''checked_out'' (Some ''t3''))
            (Some ''owner1'') (Some ''p1'') ''v1'') = Msg ''Visit approved successfully.''
   \<and> map visit_status
        (visits (snd (handleApprove (env_at ''t4'' ''u4'') (store_with ''checked_out'' (Some ''t3''))
                        (Some ''owner1'') (Some ''p1'') ''v1''))) = [Some ''approved'']"
  by code_simp

text \<open>
  C10, as the code has it. For a signed-in owner with a premise and a store that answers,
  approve always reports success. When no visit has the id, or the visit with the id
  belongs to another premise, no row changes; when the visit belongs to the acting premise,
  its status becomes \<open>approved\<close> whatever it was.
\<close>

theorem approve_reports_success:
  assumes "session \<noteq> None" and "truthy premiseId" and "\<not> fails e VisitUpdate"
  shows "fst (handleApprove e s session premiseId visitId) = Msg ''Visit approved successfully.''
       \<and> (visitId \<notin> set (map visit_id (visits s)) \<longrightarrow>
            snd (handleApprove e s session premiseId visitId) = s)
       \<and> ((\<forall>v\<in>set (visits s). visit_id v = visitId \<longrightarrow> visit_premise_id v \<noteq> premiseId) \<longrightarrow>
            snd (handleApprove e s session premiseId visitId) = s)
       \<and> (\<forall>v\<in>set (visits s). visit_id v = visitId \<and> visit_premise_id v = premiseId \<longrightarrow>
            v\<lparr>visit_status := Some ''approved'', visit_updated_at := Some (env_now e)\<rparr>
              \<in> set (visits (snd (handleApprove e s session premiseId visitId))))"
proof -
  let ?P = "\<lambda>w. visit_id w = visitId \<and> visit_premise_id w = premiseId"
  have run: "handleApprove e s session premiseId visitId =
      (Msg ''Visit approved successfully.'',
       s\<lparr>visits := map (\<lambda>w. if ?P w then approve_update (env_now e) w else w) (visits s)\<rparr>)"
    using assms by (rule handleApprove_success)
  have none: "snd (handleApprove e s session premiseId visitId) = s" if "\<forall>v\<in>set (visits s). \<not> ?P v"
    unfolding run using map_update_none[OF that] by simp
  have absent: "snd (handleApprove e s session premiseId visitId) = s"
    if "visitId \<notin> set (map visit_id (visits s))"
    using that by (intro none) auto
  have foreign: "snd (handleApprove e s session premiseId visitId) = s"
    if "\<forall>v\<in>set (visits s). visit_id v = visitId \<longrightarrow> visit_premise_id v \<noteq> premiseId"
    using that by (intro none) auto
  have own: "v\<lparr>visit_status := Some ''approved'', visit_updated_at := Some (env_now e)\<rparr>
              \<in> set (visits (snd (handleApprove e s session premiseId visitId)))"
    if "v \<in> set (visits s)" "visit_id v = visitId \<and> visit_premise_id v = premiseId" for v
  proof -
    have "approve_update (env_now e) v \<in>
        set (map (\<lambda>w. if ?P w then approve_update (env_now e) w else w) (visits s))"
      using that by (rule map_update_mem)
    then show ?thesis unfolding run by (simp add: approve_update_def)
  qed
  have reply: "fst (handleApprove e s session premiseId visitId) = Msg ''Visit approved successfully.''"
    unfolding run by simp
  from reply absent foreign own show ?thesis by blast
qed

text \<open>
  An unknown id, another owner's premise, and the owner's own denied visit.
\<close>

theorem approve_reports_success_witness:
  "''v9'' \<notin> set (map visit_id (visits (store_with ''denied'' None)))
   \<and> handleApprove (env_at ''t2'' ''u2'') (store_with ''denied'' None)
        (Some ''owner1'') (Some ''p1'') ''v9'' =
       (Msg ''Visit approved successfully.'', store_with ''denied'' None)
   \<and> handleApprove (env_at ''t2'' ''u2'') (store_with ''denied'' None)
        (Some ''owner2'') (Some ''p2'') ''v1'' =
       (Msg ''Visit approved successfully.'', store_with ''denied'' None)
   \<and> fst (handleApprove (env_at ''t2'' ''u2'') (store_with ''denied'' None)
            (Some ''owner1'') (Some ''p1'') ''v1'') = Msg ''Visit approved successfully.''
   \<and> visit1 ''approved'' None\<lparr>visit_updated_at := Some ''t2''\<rparr>
       \<in> set (visits (snd (handleApprove (env_at ''t2'' ''u2'') (store_with ''denied'' None)
                               (Some ''owner1'') (Some ''p1'') ''v1'')))"
proof -
  let ?e = "env_at ''t2'' ''u2''" and ?s = "store_with ''denied'' None"
  have a: "Some x \<noteq> None" for x :: uuid by simp
  have b: "truthy (Some ''p1'')" "truthy (Some ''p2'')" by (simp_all add: truthy_def)
  have c: "\<not> fails ?e VisitUpdate" by (simp add: fails_def env_at_def)
  have absent: "''v9'' \<notin> set (map visit_id (visits ?s))"
    by (simp add: store_with_def visit1_def)
  have foreign: "\<forall>v\<in>set (visits ?s). visit_id v = ''v1'' \<longrightarrow> visit_premise_id v \<noteq> Some ''p2''"
    by (simp add: store_with_def visit1_def)
  have own: "visit1 ''denied'' None \<in> set (visits ?s)"
    "visit_id (visit1 ''denied'' None) = ''v1'' \<and> visit_premise_id (visit1 ''denied'' None) = Some ''p1''"
    by (simp_all add: store_with_def visit1_def)
  have u: "visit1 ''denied'' None\<lparr>visit_status := Some ''approved'', visit_updated_at := Some ''t2''\<rparr>
        = visit1 ''approved'' None\<lparr>visit_updated_at := Some ''t2''\<rparr>"
    by (simp add: visit1_def)
  have n: "env_now ?e = ''t2''" by (simp add: env_at_def)
  note A = approve_reports_success[where session = "Some ''owner1''" and s = ?s
      and visitId = "''v9''", OF a b(1) c]
  note B = approve_reports_success[where session = "Some ''owner2''" and s = ?s
      and visitId = "''v1''", OF a b(2) c]
  note C = approve_reports_success[where session = "Some ''owner1''" and s = ?s
      and visitId = "''v1''", OF a b(1) c]
  have 1: "handleApprove ?e ?s (Some ''owner1'') (Some ''p1'') ''v9'' =
       (Msg ''Visit approved successfully.'', ?s)"
    using A absent by (simp add: prod_eq_iff)
  have 2: "handleApprove ?e ?s (Some ''owner2'') (Some ''p2'') ''v1'' =
       (Msg ''Visit approved successfully.'', ?s)"
    using B foreign by (simp add: prod_eq_iff)
  have 3: "fst (handleApprove ?e ?s (Some ''owner1'') (Some ''p1'') ''v1'') = Msg ''Visit approved successfully.''"
    using C by blast
  have 4: "visit1 ''approved'' None\<lparr>visit_updated_at := Some ''t2''\<rparr>
       \<in> set (visits (snd (handleApprove ?e ?s (Some ''owner1'') (Some ''p1'') ''v1'')))"
    using C own unfolding n u[symmetric] by blast
  from absent 1 2 3 4 show ?thesis by blast
qed

text \<open>
  C10 as stated fails for a visit that is not pending: approve changes the denied visit of
  the acting premise, its status and its \<open>updated_at\<close>.
\<close>

theorem approve_changes_decided_visit_counterexample:
  "map visit_status (visits (store_with ''denied'' None)) = [Some ''denied'']
   \<and> fst (handleApprove (env_at ''t2'' ''u2'') (store_with ''denied'' None)
            (Some ''owner1'') (Some ''p1'') ''v1'') = Msg ''Visit approved successfully.''
   \<and> map visit_status
        (visits (snd (handleApprove (env_at ''t2'' ''u2'') (store_with ''denied'' None)
                        (Some ''owner1'') (Some ''p1'') ''v1''))) = [Some ''approved'']
   \<and> map visit_updated_at
        (visits (snd (handleApprove (env_at ''t2'' ''u2'') (store_with ''denied'' None)
                        (Some ''owner1'') (Some ''p1'') ''v1''))) = [Some ''t2'']"
  by code_simp

section \<open>Decisions that race\<close>

lemma status_after_two_approvals:
  "map visit_status
     (map (\<lambda>w. if visit_id w = vid \<and> visit_premise_id w = pid then approve_update n2 w else w)
        (map (\<lambda>w. if visit_id w = vid \<and> visit_premise_id w = pid then approve_update n1 w else w) xs))
   = map (\<lambda>w. if visit_id w = vid \<and> visit_premise_id w = pid then Some ''approved''
               else visit_status w) xs"
  by (induction xs) (simp_all add: approve_update_def)

lemma reason_after_two_denials:
  "map visit_denial_reason
     (map (\<lambda>w. if visit_id w = vid \<and> visit_premise_id w = pid then deny_with_reason r2 n2 w else w)
        (map (\<lambda>w. if visit_id w = vid \<and> visit_premise_id w = pid then deny_with_reason r1 n1 w else w) xs))
   = map (\<lambda>w. if visit_id w = vid \<and> visit_premise_id w = pid then Some r2
               else visit_denial_reason w) xs"
  by (induction xs) (simp_all add: deny_with_reason_def)

lemma status_after_two_denials:
  "map visit_status
     (map (\<lambda>w. if visit_id w = vid \<and> visit_premise_id w = pid then deny_with_reason r2 n2 w else w)
        (map (\<lambda>w. if visit_id w = vid \<and> visit_premise_id w = pid then deny_with_reason r1 n1 w else w) xs))
   = map (\<lambda>w. if visit_id w = vid \<and> visit_premise_id w = pid then Some ''denied''
               else visit_status w) xs"
  by (induction xs) (simp_all add: deny_with_reason_def)

lemma two_approvals:
  assumes "sa \<noteq> None" "sb \<noteq> None" "truthy premiseId"
    "\<not> fails ea VisitUpdate" "\<not> fails eb VisitUpdate"
  shows "replies s [Approve ea sa premiseId visitId, Approve eb sb premiseId visitId] =
           [Ui (Msg ''Visit approved successfully.''), Ui (Msg ''Visit approved successfully.'')]"
    and "map visit_status (visits (run s [Approve ea sa premiseId visitId,
                                          Approve eb sb premiseId visitId])) =
           map (\<lambda>w. if visit_id w = visitId \<and> visit_premise_id w = premiseId
                     then Some ''approved'' else visit_status w) (visits s)"
proof -
  note a = handleApprove_success[OF assms(1,3,4)]
  note b = handleApprove_success[OF assms(2,3,5)]
  show "replies s [Approve ea sa premiseId visitId, Approve eb sb premiseId visitId] =
           [Ui (Msg ''Visit approved successfully.''), Ui (Msg ''Visit approved successfully.'')]"
    by (simp add: a b)
  have "visits (run s [Approve ea sa premiseId visitId, Approve eb sb premiseId visitId]) =
      map (\<lambda>w. if visit_id w = visitId \<and> visit_premise_id w = premiseId
                then approve_update (env_now eb) w else w)
        (map (\<lambda>w. if visit_id w = visitId \<and> visit_premise_id w = premiseId
                then approve_update (env_now ea) w else w) (visits s))"
    by (simp add: a b del: map_map)
  then show "map visit_status (visits (run s [Approve ea sa premiseId visitId,
                                          Approve eb sb premiseId visitId])) =
           map (\<lambda>w. if visit_id w = visitId \<and> visit_premise_id w = premiseId
                     then Some ''approved'' else visit_status w) (visits s)"
    by (simp only: status_after_two_approvals)
qed

lemma two_denials:
  assumes "sa \<noteq> None" "sb \<noteq> None" "truthy premiseId"
    "\<not> fails ea VisitUpdate" "\<not> fails eb VisitUpdate" "trim ra \<noteq> []" "trim rb \<noteq> []"
  shows "replies s [Deny ea sa premiseId visitId (Some ra), Deny eb sb premiseId visitId (Some rb)] =
           [Ui (Msg (''Visit denied. Reason: '' @ ra)), Ui (Msg (''Visit denied. Reason: '' @ rb))]"
    and "map visit_denial_reason (visits (run s [Deny ea sa premiseId visitId (Some ra),
                                                 Deny eb sb premiseId visitId (Some rb)])) =
           map (\<lambda>w. if visit_id w = visitId \<and> visit_premise_id w = premiseId
                     then Some rb else visit_denial_reason w) (visits s)"
    and "map visit_status (visits (run s [Deny ea sa premiseId visitId (Some ra),
                                          Deny eb sb premiseId visitId (Some rb)])) =
           map (\<lambda>w. if visit_id w = visitId \<and> visit_premise_id w = premiseId
                     then Some ''denied'' else visit_status w) (visits s)"
proof -
  note a = handleDeny_success[OF assms(6,1,3,4)]
  note b = handleDeny_success[OF assms(7,2,3,5)]
  show "replies s [Deny ea sa premiseId visitId (Some ra), Deny eb sb premiseId visitId (Some rb)] =
           [Ui (Msg (''Visit denied. Reason: '' @ ra)), Ui (Msg (''Visit denied. Reason: '' @ rb))]"
    by (simp add: a b)
  have v: "visits (run s [Deny ea sa premiseId visitId (Some ra),
                       Deny eb sb premiseId visitId (Some rb)]) =
      map (\<lambda>w. if visit_id w = visitId \<and> visit_premise_id w = premiseId
                then deny_with_reason rb (env_now eb) w else w)
        (map (\<lambda>w. if visit_id w = visitId \<and> visit_premise_id w = premiseId
                then deny_with_reason ra (env_now ea) w else w) (visits s))"
    by (simp add: a b del: map_map)
  from v show "map visit_denial_reason (visits (run s [Deny ea sa premiseId visitId (Some ra),
                                                 Deny eb sb premiseId visitId (Some rb)])) =
           map (\<lambda>w. if visit_id w = visitId \<and> visit_premise_id w = premiseId
                     then Some rb else visit_denial_reason w) (visits s)"
    by (simp only: reason_after_two_denials)
  from v show "map visit_status (visits (run s [Deny ea sa premiseId visitId (Some ra),
                                          Deny eb sb premiseId visitId (Some rb)])) =
           map (\<lambda>w. if visit_id w = visitId \<and> visit_premise_id w = premiseId
                     then Some ''denied'' else visit_status w) (visits s)"
    by (simp only: status_after_two_denials)
qed

text \<open>
  C5, as the code has it. \<open>handleApprove\<close> and \<open>handleDeny\<close> each send one update
  statement to the store, filtered by id and premise and not by the status they expect, so
  two calls that race on a visit reach the store in one order or the other. In either order
  both approvals report success, and afterwards every visit with the id and the premise is
  \<open>approved\<close> and every other visit has the status it had. Two denials both report
  success; afterwards the visit is \<open>denied\<close> and carries the reason of the later one.
\<close>

theorem racing_decisions_both_succeed:
  assumes "sa \<noteq> None" and "sb \<noteq> None" and "truthy premiseId"
    and "\<not> fails ea VisitUpdate" and "\<not> fails eb VisitUpdate"
    and "trim ra \<noteq> []" and "trim rb \<noteq> []"
  shows "replies s [Approve ea sa premiseId visitId, Approve eb sb premiseId visitId] =
           [Ui (Msg ''Visit approved successfully.''), Ui (Msg ''Visit approved successfully.'')]
       \<and> replies s [Approve eb sb premiseId visitId, Approve ea sa premiseId visitId] =
           [Ui (Msg ''Visit approved successfully.''), Ui (Msg ''Visit approved successfully.'')]
       \<and> map visit_status (visits (run s [Approve ea sa premiseId visitId,
                                          Approve eb sb premiseId visitId])) =
           map (\<lambda>w. if visit_id w = visitId \<and> visit_premise_id w = premiseId
                     then Some ''approved'' else visit_status w) (visits s)
       \<and> map visit_status (visits (run s [Approve eb sb premiseId visitId,
                                          Approve ea sa premiseId visitId])) =
           map (\<lambda>w. if visit_id w = visitId \<and> visit_premise_id w = premiseId
                     then Some ''approved'' else visit_status w) (visits s)
       \<and> replies s [Deny ea sa premiseId visitId (Some ra), Deny eb sb premiseId visitId (Some rb)] =
           [Ui (Msg (''Visit denied. Reason: '' @ ra)), Ui (Msg (''Visit denied. Reason: '' @ rb))]
       \<and> map visit_denial_reason (visits (run s [Deny ea sa premiseId visitId (Some ra),
                                                 Deny eb sb premiseId visitId (Some rb)])) =
           map (\<lambda>w. if visit_id w = visitId \<and> visit_premise_id w = premiseId
                     then Some rb else visit_denial_reason w) (visits s)
       \<and> map visit_status (visits (run s [Deny ea sa premiseId visitId (Some ra),
                                          Deny eb sb premiseId visitId (Some rb)])) =
           map (\<lambda>w. if visit_id w = visitId \<and> visit_premise_id w = premiseId
                     then Some ''denied'' else visit_status w) (visits s)"
proof -
  note ab = two_approvals[OF assms(1,2,3,4,5), of s visitId]
  note ba = two_approvals[OF assms(2,1,3,5,4), of s visitId]
  note dd = two_denials[OF assms, of s visitId]
  show ?thesis
    by (intro conjI ab ba dd)
qed

text \<open>Two approvals, in both orders, and two denials of one pending visit.\<close>

theorem racing_decisions_both_succeed_witness:
  "trim ''no badge'' \<noteq> [] \<and> trim ''no host'' \<noteq> []
   \<and> map visit_status (visits (store_with ''pending_approval'' None)) = [Some ''pending_approval'']
   \<and> replies (store_with ''pending_approval'' None)
       [Approve (env_at ''t2'' ''a'') (Some ''owner1'') (Some ''p1'') ''v1'',
        Approve (env_at ''t3'' ''b'') (Some ''owner1'') (Some ''p1'') ''v1''] =
       [Ui (Msg ''Visit approved successfully.''), Ui (Msg ''Visit approved successfully.'')]
   \<and> replies (store_with ''pending_approval'' None)
       [Approve (env_at ''t3'' ''b'') (Some ''owner1'') (Some ''p1'') ''v1'',
        Approve (env_at ''t2'' ''a'') (Some ''owner1'') (Some ''p1'') ''v1''] =
       [Ui (Msg ''Visit approved successfully.''), Ui (Msg ''Visit approved successfully.'')]
   \<and> map visit_status (visits (run (store_with ''pending_approval'' None)
       [Approve (env_at ''t2'' ''a'') (Some ''owner1'') (Some ''p1'') ''v1'',
        Approve (env_at ''t3'' ''b'') (Some ''owner1'') (Some ''p1'') ''v1''])) =
       [Some ''approved'']
   \<and> map visit_status (visits (run (store_with ''pending_approval'' None)
       [Approve (env_at ''t3'' ''b'') (Some ''owner1'') (Some ''p1'') ''v1'',
        Approve (env_at ''t2'' ''a'') (Some ''owner1'') (Some ''p1'') ''v1''])) =
       [Some ''approved'']
   \<and> replies (store_with ''pending_approval'' None)
       [Deny (env_at ''t2'' ''a'') (Some ''owner1'') (Some ''p1'') ''v1'' (Some ''no badge''),
        Deny (env_at ''t3'' ''b'') (Some ''owner1'') (Some ''p1'') ''v1'' (Some ''no host'')] =
       [Ui (Msg ''Visit denied. Reason: no badge''), Ui (Msg ''Visit denied. Reason: no host'')]
   \<and> map visit_denial_reason (visits (run (store_with ''pending_approval'' None)
       [Deny (env_at ''t2'' ''a'') (Some ''owner1'') (Some ''p1'') ''v1'' (Some ''no badge''),
        Deny (env_at ''t3'' ''b'') (Some ''owner1'') (Some ''p1'') ''v1'' (Some ''no host'')])) =
       [Some ''no host'']
   \<and> map visit_status (visits (run (store_with ''pending_approval'' None)
       [Deny (env_at ''t2'' ''a'') (Some ''owner1'') (Some ''p1'') ''v1'' (Some ''no badge''),
        Deny (env_at ''t3'' ''b'') (Some ''owner1'') (Some ''p1'') ''v1'' (Some ''no host'')])) =
       [Some ''denied'']"
proof -
  have a: "Some ''owner1'' \<noteq> None" by simp
  have b: "truthy (Some ''p1'')" by (simp add: truthy_def)
  have c: "\<not> fails (env_at ''t2'' ''a'') VisitUpdate" "\<not> fails (env_at ''t3'' ''b'') VisitUpdate"
    by (simp_all add: fails_def env_at_def)
  have ra: "trim ''no badge'' \<noteq> []" by code_simp
  have rb: "trim ''no host'' \<noteq> []" by code_simp
  have before: "map visit_status (visits (store_with ''pending_approval'' None)) =
      [Some ''pending_approval'']"
    by (simp add: store_with_def visit1_def)
  have m: "map (\<lambda>w. if visit_id w = ''v1'' \<and> visit_premise_id w = Some ''p1''
                     then x else f w)
             (visits (store_with ''pending_approval'' None)) = [x]" for x :: "string option" and f
    by (simp add: store_with_def visit1_def)
  from racing_decisions_both_succeed[OF a a b c ra rb,
      of "store_with ''pending_approval'' None" "''v1''"] ra rb before
  show ?thesis unfolding m by simp
qed

text \<open>
  C5 as stated fails: of two approvals of the same pending visit at the same time neither
  fails, and the visit is approved; of two denials neither fails and the first reason is
  lost.
\<close>

theorem racing_approvals_counterexample:
  "map visit_status (visits (store_with ''pending_approval'' None)) = [Some ''pending_approval'']
   \<and> replies (store_with ''pending_approval'' None)
       [Approve (env_at ''t2'' ''a'') (Some ''owner1'') (Some ''p1'') ''v1'',
        Approve (env_at ''t2'' ''b'') (Some ''owner1'') (Some ''p1'') ''v1''] =
       [Ui (Msg ''Visit approved successfully.''), Ui (Msg ''Visit approved successfully.'')]
   \<and> map visit_status (visits (run (store_with ''pending_approval'' None)
       [Approve (env_at ''t2'' ''a'') (Some ''owner1'') (Some ''p1'') ''v1'',
        Approve (env_at ''t2'' ''b'') (Some ''owner1'') (Some ''p1'') ''v1''])) =
       [Some ''approved'']
   \<and> replies (store_with ''pending_approval'' None)
       [Deny (env_at ''t2'' ''a'') (Some ''owner1'') (Some ''p1'') ''v1'' (Some ''no badge''),
        Deny (env_at ''t2'' ''b'') (Some ''owner1'') (Some ''p1'') ''v1'' (Some ''no host'')] =
       [Ui (Msg ''Visit denied. Reason: no badge''), Ui (Msg ''Visit denied. Reason: no host'')]
   \<and> map visit_status (visits (run (store_with ''pending_approval'' None)
       [Deny (env_at ''t2'' ''a'') (Some ''owner1'') (Some ''p1'') ''v1'' (Some ''no badge''),
        Deny (env_at ''t2'' ''b'') (Some ''owner1'') (Some ''p1'') ''v1'' (Some ''no host'')])) =
       [Some ''denied'']
   \<and> map visit_denial_reason (visits (run (store_with ''pending_approval'' None)
       [Deny (env_at ''t2'' ''a'') (Some ''owner1'') (Some ''p1'') ''v1'' (Some ''no badge''),
        Deny (env_at ''t2'' ''b'') (Some ''owner1'') (Some ''p1'') ''v1'' (Some ''no host'')])) =
       [Some ''no host'']"
  by code_simp

section \<open>Deny\<close>

text \<open>
  C3 at the deny route. The route never asks for a reason: the owner's request on a pending
  visit is answered with 200 \<open>Visitor denied successfully\<close>, the status becomes
  \<open>denied\<close> and no reason is recorded.
\<close>

theorem deny_route_records_no_reason:
  "fst (deny_route (env_at ''t2'' ''u2'') (store_with ''pending_approval'' None)
          (Some ''owner1'') ''v1'') =
     Response 200 (VisitOk ''Visitor denied successfully''
                     (visit1 ''denied'' None\<lparr>visit_updated_at := Some ''t2''\<rparr>))
   \<and> map visit_status
        (visits (snd (deny_route (env_at ''t2'' ''u2'') (store_with ''pending_approval'' None)
                        (Some ''owner1'') ''v1''))) = [Some ''denied'']
   \<and> map visit_denial_reason
        (visits (snd (deny_route (env_at ''t2'' ''u2'') (store_with ''pending_approval'' None)
                        (Some ''owner1'') ''v1''))) = [None]"
  by code_simp

text \<open>
  The dashboard's \<open>handleDeny\<close> does ask: a reason of white space only is refused and
  the store stays as it is, and a reason that is accepted is recorded on the visit.
\<close>

lemma all_dropWhile: "(\<forall>x\<in>set (dropWhile P xs). P x) \<longleftrightarrow> (\<forall>x\<in>set xs. P x)"
  by (induction xs) auto

lemma trim_blank: "trim r = [] \<longleftrightarrow> (\<forall>c\<in>set r. is_space c)"
  by (simp add: trim_def dropWhile_eq_Nil_conv all_dropWhile)

lemma handleDeny_blank_reason:
  "\<forall>c\<in>set r. is_space c \<Longrightarrow>
     handleDeny e s session premiseId visitId (Some r) =
       (Err ''A reason for denial is required.'', s)"
  by (simp add: handleDeny_def trim_blank)

lemma handleDeny_records_reason:
  assumes "trim r \<noteq> []" "session \<noteq> None" "truthy premiseId" "\<not> fails e VisitUpdate"
    and "v \<in> set (visits s)" "visit_id v = visitId" "visit_premise_id v = premiseId"
  shows "v\<lparr>visit_status := Some ''denied'', visit_denial_reason := Some r,
           visit_updated_at := Some (env_now e)\<rparr>
         \<in> set (visits (snd (handleDeny e s session premiseId visitId (Some r))))"
proof -
  have "deny_with_reason r (env_now e) v \<in>
      set (map (\<lambda>w. if visit_id w = visitId \<and> visit_premise_id w = premiseId
                     then deny_with_reason r (env_now e) w else w) (visits s))"
    using assms(5) by (rule map_update_mem) (simp add: assms(6,7))
  then show ?thesis
    unfolding handleDeny_success[OF assms(1-4)] by (simp add: deny_with_reason_def)
qed

section \<open>The try block of the submit route\<close>

text \<open>
  What the \<open>try\<close> block would do if the route reached it: the lemmas of this section
  are about \<open>submit_try\<close>, not about the route.
\<close>

lemma intake_checks_Inr:
  "intake_checks e s qr = Inr (q, f) \<longleftrightarrow>
     fetch_qrcode e s qr = Inr q \<and> active (qr_is_active q) \<and>
     fetch_form e s (qr_form_id q) = Inr f \<and> active (form_is_active f) \<and>
     form_premise_id f = qr_premise_id q"
  by (auto simp: intake_checks_def split: sum.splits if_splits)

lemma submit_refused:
  "intake_checks e s qr = Inl resp \<Longrightarrow> qr \<noteq> [] \<Longrightarrow>
     submit_try e s (Some qr) (Some fd) = (resp, s)"
  by (simp add: submit_try_def)

lemma submit_changes_store:
  assumes "snd (submit_try e s q fd) \<noteq> s"
  shows "\<exists>qr d qrc fm. q = Some qr \<and> qr \<noteq> [] \<and> fd = Some d \<and>
           intake_checks e s qr = Inr (qrc, fm)"
proof -
  have ex: "\<exists>qr d. q = Some qr \<and> fd = Some d \<and> qr \<noteq> []"
    using assms submit_rejected[of q fd e s] by blast
  then obtain qr d where q: "q = Some qr" "fd = Some d" "qr \<noteq> []" by blast
  show ?thesis
  proof (cases "intake_checks e s qr")
    case (Inl resp)
    then have "snd (submit_try e s q fd) = s" using q by (simp add: submit_refused)
    with assms show ?thesis by simp
  next
    case (Inr pair)
    then show ?thesis using q by (cases pair) auto
  qed
qed

lemma unknown_qr: "qr \<notin> set (map qr_identifier (qrcodes s)) \<Longrightarrow> \<exists>err. fetch_qrcode e s qr = Inl err"
proof -
  assume "qr \<notin> set (map qr_identifier (qrcodes s))"
  then have "filter (\<lambda>q. qr_identifier q = qr) (qrcodes s) = []"
    by (auto simp: filter_empty_conv)
  then show ?thesis by (simp add: fetch_qrcode_def single_def)
qed

text \<open>
  The block checks in order and answers each failure with a message of its own, leaving the
  store as it was: 404 for an unknown QR identifier, 400 for an inactive QR code, 400 with
  another message for an inactive form behind an active QR code, and 500 for a form whose
  premise differs from that of its QR code.
\<close>

lemma try_block_checks_in_order:
  assumes "qr \<noteq> []"
  shows "(qr \<notin> set (map qr_identifier (qrcodes s)) \<longrightarrow>
            submit_try e s (Some qr) (Some fd) =
              (Response 404 (ErrorBody ''Invalid or expired QR code.''), s))
       \<and> (fetch_qrcode e s qr = Inr q \<and> \<not> active (qr_is_active q) \<longrightarrow>
            submit_try e s (Some qr) (Some fd) =
              (Response 400 (ErrorBody ''This QR code is no longer active.''), s))
       \<and> (fetch_qrcode e s qr = Inr q \<and> active (qr_is_active q) \<and>
          fetch_form e s (qr_form_id q) = Inr f \<and> \<not> active (form_is_active f) \<longrightarrow>
            submit_try e s (Some qr) (Some fd) =
              (Response 400 (ErrorBody ''This form is no longer active.''), s))
       \<and> (fetch_qrcode e s qr = Inr q \<and> active (qr_is_active q) \<and>
          fetch_form e s (qr_form_id q) = Inr f \<and> active (form_is_active f) \<and>
          form_premise_id f \<noteq> qr_premise_id q \<longrightarrow>
            submit_try e s (Some qr) (Some fd) =
              (Response 500 (ErrorBody ''Form configuration error.''), s))
       \<and> (snd (submit_try e s (Some qr) (Some fd)) \<noteq> s \<longrightarrow>
            (\<exists>q' f'. fetch_qrcode e s qr = Inr q' \<and> active (qr_is_active q') \<and>
               fetch_form e s (qr_form_id q') = Inr f' \<and> active (form_is_active f') \<and>
               form_premise_id f' = qr_premise_id q'))"
proof -
  have a: "submit_try e s (Some qr) (Some fd) =
              (Response 404 (ErrorBody ''Invalid or expired QR code.''), s)"
    if "qr \<notin> set (map qr_identifier (qrcodes s))"
  proof -
    from unknown_qr[OF that] obtain err where "fetch_qrcode e s qr = Inl err" ..
    then have "intake_checks e s qr = Inl (Response 404 (ErrorBody ''Invalid or expired QR code.''))"
      by (simp add: intake_checks_def)
    then show ?thesis using assms by (rule submit_refused)
  qed
  have b: "submit_try e s (Some qr) (Some fd) =
              (Response 400 (ErrorBody ''This QR code is no longer active.''), s)"
    if "fetch_qrcode e s qr = Inr q" "\<not> active (qr_is_active q)"
  proof -
    have "intake_checks e s qr = Inl (Response 400 (ErrorBody ''This QR code is no longer active.''))"
      using that by (simp add: intake_checks_def)
    then show ?thesis using assms by (rule submit_refused)
  qed
  have c: "submit_try e s (Some qr) (Some fd) =
              (Response 400 (ErrorBody ''This form is no longer active.''), s)"
    if "fetch_qrcode e s qr = Inr q" "active (qr_is_active q)"
      "fetch_form e s (qr_form_id q) = Inr f" "\<not> active (form_is_active f)"
  proof -
    have "intake_checks e s qr = Inl (Response 400 (ErrorBody ''This form is no longer active.''))"
      using that by (simp add: intake_checks_def)
    then show ?thesis using assms by (rule submit_refused)
  qed
  have d: "submit_try e s (Some qr) (Some fd) =
              (Response 500 (ErrorBody ''Form configuration error.''), s)"
    if "fetch_qrcode e s qr = Inr q" "active (qr_is_active q)"
      "fetch_form e s (qr_form_id q) = Inr f" "active (form_is_active f)"
      "form_premise_id f \<noteq> qr_premise_id q"
  proof -
    have "intake_checks e s qr = Inl (Response 500 (ErrorBody ''Form configuration error.''))"
      using that by (simp add: intake_checks_def)
    then show ?thesis using assms by (rule submit_refused)
  qed
  have e: "\<exists>q' f'. fetch_qrcode e s qr = Inr q' \<and> active (qr_is_active q') \<and>
               fetch_form e s (qr_form_id q') = Inr f' \<and> active (form_is_active f') \<and>
               form_premise_id f' = qr_premise_id q'"
    if "snd (submit_try e s (Some qr) (Some fd)) \<noteq> s"
  proof -
    from submit_changes_store[OF that] obtain qrc fm where "intake_checks e s qr = Inr (qrc, fm)"
      by auto
    then show ?thesis unfolding intake_checks_Inr by blast
  qed
  from a b c d e show ?thesis by blast
qed


lemma map_update_snoc_fresh:
  assumes "vid \<notin> set (map visit_id xs)" "visit_id row = vid"
  shows "map (\<lambda>v. if visit_id v = vid then g v else v) (xs @ [row]) = xs @ [g row]"
proof -
  have "\<forall>v\<in>set xs. \<not> visit_id v = vid" using assms(1) by auto
  then have "map (\<lambda>v. if visit_id v = vid then g v else v) xs = xs"
    by (rule map_update_none)
  then show ?thesis using assms(2) by simp
qed

lemma link_visit_new_row:
  assumes "visits s2 = xs @ [row]" "visit_id row = vid" "vid \<notin> set (map visit_id xs)"
  shows "visits (link_visit e s2 vid x) =
           xs @ [if truthy x \<and> \<not> fails e VisitLink then link_update x (env_now e) row else row]"
  using assms map_update_snoc_fresh[OF assms(3,2), of "link_update x (env_now e)"]
  by (simp add: link_visit_def)

lemma insert_visit_fresh:
  "\<not> fails e VisitInsert \<Longrightarrow> visit_id row \<notin> set (map visit_id (visits s)) \<Longrightarrow>
     insert_visit e s row = Inr (row, s\<lparr>visits := visits s @ [row]\<rparr>)"
  by (simp add: insert_visit_def)

lemma new_visit_fields:
  "visit_id (new_visit e q f fd) = env_new_uuid e"
  "visit_form_data (new_visit e q f fd) = fd"
  "visit_status (new_visit e q f fd) = Some ''checked_in''"
  "visit_check_out_time (new_visit e q f fd) = None"
  "visit_visitor_id (new_visit e q f fd) = None"
  by (simp_all add: new_visit_def)

lemma link_update_fields:
  "visit_id (link_update x now v) = visit_id v"
  "visit_form_data (link_update x now v) = visit_form_data v"
  "visit_status (link_update x now v) = visit_status v"
  "visit_check_out_time (link_update x now v) = visit_check_out_time v"
  "visit_visitor_id (link_update x now v) = x"
  by (simp_all add: link_update_def)

text \<open>What an accepted submission does, by the outcome of the identity resolution.\<close>

lemma submit_accepted:
  assumes "qr \<noteq> []" "intake_checks e s qr = Inr (q, f)" "\<not> fails e VisitInsert"
    "env_new_uuid e \<notin> set (map visit_id (visits s))"
  shows "resolve_visitor e (s\<lparr>visits := visits s @ [new_visit e q f fd]\<rparr>) (extract_visitor fd) = Thrown
         \<Longrightarrow> submit_try e s (Some qr) (Some fd) =
               (Response 500 (ErrorBody ''Internal Server Error''),
                s\<lparr>visits := visits s @ [new_visit e q f fd]\<rparr>)"
    and "resolve_visitor e (s\<lparr>visits := visits s @ [new_visit e q f fd]\<rparr>) (extract_visitor fd)
           = Normal (x, s2)
         \<Longrightarrow> submit_try e s (Some qr) (Some fd) =
               (Response 201 (SubmitOk ''Visit recorded successfully'' (env_new_uuid e)),
                link_visit e s2 (env_new_uuid e) x)"
proof -
  have ins: "insert_visit e s (new_visit e q f fd) =
      Inr (new_visit e q f fd, s\<lparr>visits := visits s @ [new_visit e q f fd]\<rparr>)"
    using assms(3,4) by (intro insert_visit_fresh) (simp_all add: new_visit_fields)
  show "resolve_visitor e (s\<lparr>visits := visits s @ [new_visit e q f fd]\<rparr>) (extract_visitor fd) = Thrown
         \<Longrightarrow> submit_try e s (Some qr) (Some fd) =
               (Response 500 (ErrorBody ''Internal Server Error''),
                s\<lparr>visits := visits s @ [new_visit e q f fd]\<rparr>)"
    using assms(1,2) ins by (simp add: submit_try_def)
  show "resolve_visitor e (s\<lparr>visits := visits s @ [new_visit e q f fd]\<rparr>) (extract_visitor fd)
           = Normal (x, s2)
         \<Longrightarrow> submit_try e s (Some qr) (Some fd) =
               (Response 201 (SubmitOk ''Visit recorded successfully'' (env_new_uuid e)),
                link_visit e s2 (env_new_uuid e) x)"
    using assms(1,2) ins by (simp add: submit_try_def new_visit_fields)
qed

lemma submit_accepted_visits:
  assumes "qr \<noteq> []" "intake_checks e s qr = Inr (q, f)" "\<not> fails e VisitInsert"
    "env_new_uuid e \<notin> set (map visit_id (visits s))"
  shows "\<exists>v. visits (snd (submit_try e s (Some qr) (Some fd))) = visits s @ [v] \<and>
             visit_id v = env_new_uuid e \<and> visit_form_data v = fd \<and>
             visit_status v = Some ''checked_in'' \<and> visit_check_out_time v = None"
proof -
  let ?row = "new_visit e q f fd"
  let ?s1 = "s\<lparr>visits := visits s @ [?row]\<rparr>"
  show ?thesis
  proof (cases "resolve_visitor e ?s1 (extract_visitor fd)")
    case Thrown
    from submit_accepted(1)[OF assms Thrown]
    have "visits (snd (submit_try e s (Some qr) (Some fd))) = visits s @ [?row]" by simp
    then show ?thesis by (simp add: new_visit_fields)
  next
    case (Normal r)
    obtain x s2 where r: "r = (x, s2)" by (cases r)
    have v2: "visits s2 = visits s @ [?row]"
      using Normal r provision_Normal[of e ?s1 "extract_visitor fd" _ x s2]
      by (simp add: resolve_visitor_def)
    let ?v = "if truthy x \<and> \<not> fails e VisitLink then link_update x (env_now e) ?row else ?row"
    have "visits (link_visit e s2 (env_new_uuid e) x) = visits s @ [?v]"
      using v2 _ assms(4) by (rule link_visit_new_row) (simp add: new_visit_fields)
    moreover have "snd (submit_try e s (Some qr) (Some fd)) = link_visit e s2 (env_new_uuid e) x"
      using submit_accepted(2)[OF assms, of fd x s2] Normal r by simp
    ultimately have "visits (snd (submit_try e s (Some qr) (Some fd))) = visits s @ [?v]" by simp
    moreover have "visit_id ?v = env_new_uuid e \<and> visit_form_data ?v = fd \<and>
             visit_status ?v = Some ''checked_in'' \<and> visit_check_out_time ?v = None"
      by (simp add: new_visit_fields link_update_fields)
    ultimately show ?thesis by blast
  qed
qed

text \<open>
  After its checks the block inserts one visit with the status \<open>checked_in\<close> whose
  \<open>form_data\<close> is the raw \<open>formData\<close>; the normalized copy is only read for the
  visitor's email, phone, name and id number.
\<close>

lemma try_block_stores_raw_form_data:
  assumes "qr \<noteq> []" and "intake_checks e s qr = Inr (q, f)" and "\<not> fails e VisitInsert"
    and "env_new_uuid e \<notin> set (map visit_id (visits s))"
  shows "visits (snd (submit_try e s (Some qr) (Some fd))) =
           visits s @ [last (visits (snd (submit_try e s (Some qr) (Some fd))))]
       \<and> visit_form_data (last (visits (snd (submit_try e s (Some qr) (Some fd))))) = fd
       \<and> visit_status (last (visits (snd (submit_try e s (Some qr) (Some fd))))) = Some ''checked_in''"
proof -
  from submit_accepted_visits[OF assms, of fd] obtain v where
    "visits (snd (submit_try e s (Some qr) (Some fd))) = visits s @ [v]"
    "visit_form_data v = fd" "visit_status v = Some ''checked_in''"
    by blast
  then show ?thesis by simp
qed

text \<open>The block's identity step: email first, then phone, then a new profile.\<close>

lemma by_email_unique:
  assumes "visitorEmail f = Some em" "em \<noteq> []" "\<not> fails e FindByEmail"
    "filter (\<lambda>p. profile_email p = Some em) (profiles s) = [p]"
  shows "by_email e s f = Some (profile_id p)"
  using assms by (simp add: by_email_def truthy_def find_profile_def maybeSingle_def)

lemma by_phone_keeps: "truthy x \<Longrightarrow> by_phone e s f x = x"
  by (simp add: by_phone_def)

lemma by_phone_unique:
  assumes "\<not> truthy x" "visitorPhone f = Some ph" "ph \<noteq> []" "\<not> fails e FindByPhone"
    "filter (\<lambda>p. profile_phone_number p = Some ph) (profiles s) = [p]"
  shows "by_phone e s f x = Some (profile_id p)"
  using assms by (simp add: by_phone_def truthy_def find_profile_def maybeSingle_def)

lemma provision_found: "truthy x \<Longrightarrow> provision e s f x = Normal (x, s)"
  by (simp add: provision_def)

lemma resolve_found:
  "by_phone e s f (by_email e s f) = Some i \<Longrightarrow> i \<noteq> [] \<Longrightarrow>
     resolve_visitor e s f = Normal (Some i, s)"
  by (simp add: resolve_visitor_def provision_found truthy_def)

lemma resolve_by_email:
  assumes "visitorEmail f = Some em" "em \<noteq> []" "\<not> fails e FindByEmail"
    "filter (\<lambda>p. profile_email p = Some em) (profiles s) = [p]" "profile_id p \<noteq> []"
  shows "resolve_visitor e s f = Normal (Some (profile_id p), s)"
proof -
  have "by_email e s f = Some (profile_id p)" using assms(1-4) by (rule by_email_unique)
  moreover from this have "by_phone e s f (by_email e s f) = Some (profile_id p)"
    using assms(5) by (simp add: by_phone_keeps truthy_def)
  ultimately show ?thesis using assms(5) by (intro resolve_found)
qed

lemma resolve_by_phone:
  assumes "by_email e s f = None" "visitorPhone f = Some ph" "ph \<noteq> []" "\<not> fails e FindByPhone"
    "filter (\<lambda>p. profile_phone_number p = Some ph) (profiles s) = [p]" "profile_id p \<noteq> []"
  shows "resolve_visitor e s f = Normal (Some (profile_id p), s)"
proof -
  have "\<not> truthy (by_email e s f)" using assms(1) by (simp add: truthy_def)
  then have "by_phone e s f (by_email e s f) = Some (profile_id p)"
    using assms(2-5) by (rule by_phone_unique)
  then show ?thesis using assms(6) by (rule resolve_found)
qed

lemma resolve_provisions_last:
  assumes "resolve_visitor e s f = Normal (x, s')" "s' \<noteq> s"
  shows "\<not> truthy (by_phone e s f (by_email e s f))"
proof
  assume "truthy (by_phone e s f (by_email e s f))"
  then have "resolve_visitor e s f = Normal (by_phone e s f (by_email e s f), s)"
    by (simp add: resolve_visitor_def provision_found)
  with assms show False by simp
qed

lemma profiles_link_visit: "profiles (link_visit e s vid x) = profiles s"
  by (simp add: link_visit_def)

lemma profiles_submit:
  "profiles (snd (submit_try e s q fd)) = profiles s \<or>
   (\<exists>p. profiles (snd (submit_try e s q fd)) = profiles s @ [p])"
proof (cases "\<exists>qr d. q = Some qr \<and> fd = Some d \<and> qr \<noteq> []")
  case False
  then have "snd (submit_try e s q fd) = s" by (rule submit_rejected)
  then show ?thesis by simp
next
  case True
  then obtain qr d where q: "q = Some qr" "fd = Some d" "qr \<noteq> []" by blast
  show ?thesis
  proof (cases "intake_checks e s qr")
    case (Inl resp)
    then show ?thesis using q by (simp add: submit_try_def)
  next
    case (Inr pair)
    obtain qrc fm where pair: "pair = (qrc, fm)" by (cases pair)
    let ?row = "new_visit e qrc fm d"
    show ?thesis
    proof (cases "insert_visit e s ?row")
      case (Inl err)
      then show ?thesis using q Inr pair by (simp add: submit_try_def)
    next
      case ins: (Inr res)
      then have res: "res = (?row, s\<lparr>visits := visits s @ [?row]\<rparr>)"
        by (rule insert_visit_Inr)
      let ?s1 = "s\<lparr>visits := visits s @ [?row]\<rparr>"
      show ?thesis
      proof (cases "resolve_visitor e ?s1 (extract_visitor d)")
        case Thrown
        then have "snd (submit_try e s q fd) = ?s1"
          using q Inr pair ins res by (simp add: submit_try_def)
        then show ?thesis by simp
      next
        case (Normal r)
        obtain x s2 where r: "r = (x, s2)" by (cases r)
        from Normal r have p2: "profiles s2 = profiles s \<or> (\<exists>p. profiles s2 = profiles s @ [p])"
          using provision_Normal[of e ?s1 "extract_visitor d" _ x s2]
          by (simp add: resolve_visitor_def)
        have "snd (submit_try e s q fd) = link_visit e s2 (visit_id ?row) x"
          using q Inr pair ins res Normal r by (simp add: submit_try_def)
        then show ?thesis using p2 by (simp add: profiles_link_visit)
      qed
    qed
  qed
qed

text \<open>
  When the block reaches the provisioning step, building the new profile row evaluates
  \<open>user.id\<close>, and \<open>user\<close> is not in scope either: the block's \<open>catch\<close> answers 500
  after the visit was inserted.
\<close>

lemma provision_unbound_user:
  assumes "env_user e = None" "\<not> truthy x"
    "truthy (visitorFullName f) \<or> truthy (visitorEmail f) \<or> truthy (visitorIdNumber f)"
  shows "provision e s f x = Thrown"
  using assms by (simp add: provision_def)

lemma submit_unbound_user:
  assumes "qr \<noteq> []" "intake_checks e s qr = Inr (q, f)" "\<not> fails e VisitInsert"
    "env_new_uuid e \<notin> set (map visit_id (visits s))" "env_user e = None"
    and "\<not> truthy (by_phone e s (extract_visitor fd) (by_email e s (extract_visitor fd)))"
    and "truthy (visitorFullName (extract_visitor fd)) \<or> truthy (visitorEmail (extract_visitor fd))
         \<or> truthy (visitorIdNumber (extract_visitor fd))"
  shows "submit_try e s (Some qr) (Some fd) =
           (Response 500 (ErrorBody ''Internal Server Error''),
            s\<lparr>visits := visits s @ [new_visit e q f fd]\<rparr>)"
proof -
  let ?s1 = "s\<lparr>visits := visits s @ [new_visit e q f fd]\<rparr>"
  have "by_email e ?s1 (extract_visitor fd) = by_email e s (extract_visitor fd)"
    by (simp add: by_email_def find_profile_def)
  moreover have "by_phone e ?s1 (extract_visitor fd) = by_phone e s (extract_visitor fd)"
    by (simp add: by_phone_def find_profile_def fun_eq_iff)
  ultimately have "resolve_visitor e ?s1 (extract_visitor fd) = Thrown"
    using assms(5,6,7) by (simp add: resolve_visitor_def provision_unbound_user)
  then show ?thesis by (rule submit_accepted(1)[OF assms(1-4)])
qed

section \<open>The submit route as written\<close>

text \<open>
  C6 at the route. Whatever is submitted, the route throws on its first statement, before
  the \<open>try\<close> block and so before any check: an unknown QR identifier, an inactive QR
  code, an inactive form and a form under another premise all end in the same uncaught
  ReferenceError, with the store as it was, and none of the answers of the checks is given.
\<close>

theorem submit_route_throws_before_the_checks:
  "''nope'' \<notin> set (map qr_identifier (qrcodes store0))
   \<and> perform store0 (Submit (env_at ''t1'' ''v1'') (Some ''nope'') (Some jane1)) =
       (Uncaught, store0)
   \<and> perform (store_cfg False True ''p1'') (Submit (env_at ''t1'' ''v1'') (Some ''qr-1'') (Some jane1)) =
       (Uncaught, store_cfg False True ''p1'')
   \<and> perform (store_cfg True False ''p1'') (Submit (env_at ''t1'' ''v1'') (Some ''qr-1'') (Some jane1)) =
       (Uncaught, store_cfg True False ''p1'')
   \<and> perform (store_cfg True True ''p2'') (Submit (env_at ''t1'' ''v1'') (Some ''qr-1'') (Some jane1)) =
       (Uncaught, store_cfg True True ''p2'')"
  by code_simp

text \<open>
  C7 at the route. Two submissions with the same email and different phone numbers, against
  an active QR code and form: both requests throw, no visit is created, so no two visits are
  linked to one identity, and no profile is looked up or created.
\<close>

theorem same_email_submissions_link_nothing:
  "visitorEmail (extract_visitor jane1) = Some ''jane@x.com''
   \<and> visitorEmail (extract_visitor jane2) = Some ''jane@x.com''
   \<and> intake_checks (env_at ''t1'' ''v1'') store0 ''qr-1'' = Inr (qr1, form1)
   \<and> replies store0 [Submit (env_at ''t1'' ''v1'') (Some ''qr-1'') (Some jane1),
                      Submit (env_at ''t2'' ''v2'') (Some ''qr-1'') (Some jane2)] =
       [Uncaught, Uncaught]
   \<and> map visit_visitor_id
        (visits (run store0 [Submit (env_at ''t1'' ''v1'') (Some ''qr-1'') (Some jane1),
                             Submit (env_at ''t2'' ''v2'') (Some ''qr-1'') (Some jane2)])) = []
   \<and> profiles (run store0 [Submit (env_at ''t1'' ''v1'') (Some ''qr-1'') (Some jane1),
                           Submit (env_at ''t2'' ''v2'') (Some ''qr-1'') (Some jane2)]) = []"
  by code_simp

text \<open>
  C8 at the route. A visitor who gives only a name submits against the active QR code and
  form, so that every intake check would pass: the request throws, the submitter gets no
  success, and no visit row is created.
\<close>

theorem accepted_submission_creates_no_visit:
  "intake_checks (env_at ''t1'' ''v1'') store0 ''qr-1'' = Inr (qr1, form1)
   \<and> replies store0 [Submit (env_at ''t1'' ''v1'') (Some ''qr-1'') (Some [(''Full Name'', ''Jane'')])] =
       [Uncaught]
   \<and> visits (run store0 [Submit (env_at ''t1'' ''v1'') (Some ''qr-1'')
                            (Some [(''Full Name'', ''Jane'')])]) = []"
  by code_simp

text \<open>
  C9 at the route. A submission with the label \<open>Purpose Of Visit\<close>, whose normalized form
  is \<open>purpose_of_visit\<close>, against the active QR code and form: the request throws and no
  \<open>form_data\<close> is stored, under either key.
\<close>

theorem submission_stores_no_form_data:
  "normalize_key ''Purpose Of Visit'' = ''purpose_of_visit''
   \<and> intake_checks (env_at ''t1'' ''v1'') store0 ''qr-1'' = Inr (qr1, form1)
   \<and> replies store0 [Submit (env_at ''t1'' ''v1'') (Some ''qr-1'')
                        (Some [(''Purpose Of Visit'', ''Delivery'')])] = [Uncaught]
   \<and> map visit_form_data
        (visits (run store0 [Submit (env_at ''t1'' ''v1'') (Some ''qr-1'')
                               (Some [(''Purpose Of Visit'', ''Delivery'')])])) = []"
  by code_simp

end
